theory Spec2Isabelle
  imports Complex_Main
begin

section \<open>The notebooks as data\<close>

text \<open>
  The repository is four Jupyter notebooks: the SVD tutorial
  (\<^verbatim>\<open>A_Gentle_Introduction_to_SVD_for_ML\<close>), the tensor tutorial, the
  parameter-tuning tutorial and the CNN-LSTM tutorial. A notebook is a list of cells; a
  markdown cell holds prose only, a code cell holds an execution count (\<open>null\<close> when
  the cell was never run) and its source, one string per line. The code cells are
  transcribed below line by line, without the line terminators; a cell is named after
  its notebook and its index in the notebook's \<^verbatim>\<open>cells\<close> array (markdown cells
  counted, so \<open>svd_cell_37\<close> is the 38th cell of the SVD notebook).
\<close>

record code_cell =
  execution_count :: "nat option"
  source :: "string list"

definition svd_cell_3 :: code_cell where
  "svd_cell_3 = \<lparr>execution_count = None, source = [
     ''A = U . Sigma . V^T'']\<rparr>"

definition svd_cell_6 :: code_cell where
  "svd_cell_6 = \<lparr>execution_count = Some 1, source = [
     ''# Singular-value decomposition'',
     ''from numpy import array'',
     ''from scipy.linalg import svd'',
     ''# define a matrix'',
     ''A = array([[1, 2], [3, 4], [5, 6]])'',
     ''print(A)'',
     ''# SVD'',
     ''U, s, VT = svd(A)'',
     ''print(U)'',
     ''print(s)'',
     ''print(VT)'']\<rparr>"

definition svd_cell_8 :: code_cell where
  "svd_cell_8 = \<lparr>execution_count = None, source = [
     ''U (m x m) . Sigma (m x m) . V^T (n x n)'']\<rparr>"

definition svd_cell_10 :: code_cell where
  "svd_cell_10 = \<lparr>execution_count = None, source = [
     ''U (m x m) . Sigma (m x n) . V^T (n x n)'']\<rparr>"

definition svd_cell_12 :: code_cell where
  "svd_cell_12 = \<lparr>execution_count = Some 2, source = [
     ''# Reconstruct SVD'',
     ''from numpy import array'',
     ''from numpy import diag'',
     ''from numpy import dot'',
     ''from numpy import zeros'',
     ''from scipy.linalg import svd'',
     ''# define a matrix'',
     ''A = array([[1, 2], [3, 4], [5, 6]])'',
     ''print(A)'',
     ''# Singular-value decomposition'',
     ''U, s, VT = svd(A)'',
     ''# create m x n Sigma matrix'',
     ''Sigma = zeros((A.shape[0], A.shape[1]))'',
     ''# populate Sigma with n x n diagonal matrix'',
     ''Sigma[:A.shape[1], :A.shape[1]] = diag(s)'',
     ''# reconstruct matrix'',
     ''B = U.dot(Sigma.dot(VT))'',
     ''print(B)'']\<rparr>"

definition svd_cell_14 :: code_cell where
  "svd_cell_14 = \<lparr>execution_count = Some 3, source = [
     ''# Reconstruct SVD'',
     ''from numpy import array'',
     ''from numpy import diag'',
     ''from numpy import dot'',
     ''from scipy.linalg import svd'',
     ''# define a matrix'',
     ''A = array([[1, 2, 3], [4, 5, 6], [7, 8, 9]])'',
     ''print(A)'',
     ''# Singular-value decomposition'',
     ''U, s, VT = svd(A)'',
     ''# create n x n Sigma matrix'',
     ''Sigma = diag(s)'',
     ''# reconstruct matrix'',
     ''B = U.dot(Sigma.dot(VT))'',
     ''print(B)'']\<rparr>"

definition svd_cell_16 :: code_cell where
  "svd_cell_16 = \<lparr>execution_count = None, source = [
     ''A^+ = V . D^+ . U^T'']\<rparr>"

definition svd_cell_18 :: code_cell where
  "svd_cell_18 = \<lparr>execution_count = None, source = [
     ''A^+ = VD^+U^T'']\<rparr>"

definition svd_cell_20 :: code_cell where
  "svd_cell_20 = \<lparr>execution_count = None, source = [
     ''A = U . Sigma . V^T'']\<rparr>"

definition svd_cell_22 :: code_cell where
  "svd_cell_22 = \<lparr>execution_count = None, source = [
     ''         s11,   0,   0'',
     ''Sigma = (  0, s22,   0)'',
     ''           0,   0, s33'']\<rparr>"

definition svd_cell_23 :: code_cell where
  "svd_cell_23 = \<lparr>execution_count = None, source = [
     ''       1/s11,     0,     0'',
     ''D^+ = (    0, 1/s22,     0)'',
     ''           0,     0, 1/s33'']\<rparr>"

definition svd_cell_25 :: code_cell where
  "svd_cell_25 = \<lparr>execution_count = Some 4, source = [
     ''# Pseudoinverse'',
     ''from numpy import array'',
     ''from numpy.linalg import pinv'',
     ''# define matrix'',
     ''A = array(['',
     CHR 0x09 # ''[0.1, 0.2],'',
     CHR 0x09 # ''[0.3, 0.4],'',
     CHR 0x09 # ''[0.5, 0.6],'',
     CHR 0x09 # ''[0.7, 0.8]])'',
     ''print(A)'',
     ''# calculate pseudoinverse'',
     ''B = pinv(A)'',
     ''print(B)'']\<rparr>"

definition svd_cell_27 :: code_cell where
  "svd_cell_27 = \<lparr>execution_count = None, source = [
     ''A^+ = V . D^+ . U^V'']\<rparr>"

definition svd_cell_29 :: code_cell where
  "svd_cell_29 = \<lparr>execution_count = Some 5, source = [
     ''# Pseudoinverse via SVD'',
     ''from numpy import array'',
     ''from numpy.linalg import svd'',
     ''from numpy import zeros'',
     ''from numpy import diag'',
     ''# define matrix'',
     ''A = array(['',
     CHR 0x09 # ''[0.1, 0.2],'',
     CHR 0x09 # ''[0.3, 0.4],'',
     CHR 0x09 # ''[0.5, 0.6],'',
     CHR 0x09 # ''[0.7, 0.8]])'',
     ''print(A)'',
     ''# calculate svd'',
     ''U, s, VT = svd(A)'',
     ''# reciprocals of s'',
     ''d = 1.0 / s'',
     ''# create m x n D matrix'',
     ''D = zeros(A.shape)'',
     ''# populate D with n x n diagonal matrix'',
     ''D[:A.shape[1], :A.shape[1]] = diag(d)'',
     ''# calculate pseudoinverse'',
     ''B = VT.T.dot(D.T).dot(U.T)'',
     ''print(B)'']\<rparr>"

definition svd_cell_31 :: code_cell where
  "svd_cell_31 = \<lparr>execution_count = None, source = [
     ''B = U . Sigmak . V^Tk'']\<rparr>"

definition svd_cell_33 :: code_cell where
  "svd_cell_33 = \<lparr>execution_count = None, source = [
     ''T = U . Sigmak'']\<rparr>"

definition svd_cell_35 :: code_cell where
  "svd_cell_35 = \<lparr>execution_count = None, source = [
     ''T = V^Tk . A'']\<rparr>"

definition svd_cell_37 :: code_cell where
  "svd_cell_37 = \<lparr>execution_count = Some 6, source = [
     ''from numpy import array'',
     ''from numpy import diag'',
     ''from numpy import zeros'',
     ''from scipy.linalg import svd'',
     ''# define a matrix'',
     ''A = array(['',
     CHR 0x09 # ''[1,2,3,4,5,6,7,8,9,10],'',
     CHR 0x09 # ''[11,12,13,14,15,16,17,18,19,20],'',
     CHR 0x09 # ''[21,22,23,24,25,26,27,28,29,30]])'',
     ''print(A)'',
     ''# Singular-value decomposition'',
     ''U, s, VT = svd(A)'',
     ''# create m x n Sigma matrix'',
     ''Sigma = zeros((A.shape[0], A.shape[1]))'',
     ''# populate Sigma with n x n diagonal matrix'',
     ''Sigma[:A.shape[0], :A.shape[0]] = diag(s)'',
     ''# select'',
     ''n_elements = 2'',
     ''Sigma = Sigma[:, :n_elements]'',
     ''VT = VT[:n_elements, :]'',
     ''# reconstruct'',
     ''B = U.dot(Sigma.dot(VT))'',
     ''print(B)'',
     ''# transform'',
     ''T = U.dot(Sigma)'',
     ''print(T)'',
     ''T = A.dot(VT.T)'',
     ''print(T)'']\<rparr>"

definition svd_cell_39 :: code_cell where
  "svd_cell_39 = \<lparr>execution_count = Some 7, source = [
     ''from numpy import array'',
     ''from sklearn.decomposition import TruncatedSVD'',
     ''# define array'',
     ''A = array(['',
     CHR 0x09 # ''[1,2,3,4,5,6,7,8,9,10],'',
     CHR 0x09 # ''[11,12,13,14,15,16,17,18,19,20],'',
     CHR 0x09 # ''[21,22,23,24,25,26,27,28,29,30]])'',
     ''print(A)'',
     ''# svd'',
     ''svd = TruncatedSVD(n_components=2)'',
     ''svd.fit(A)'',
     ''result = svd.transform(A)'',
     ''print(result)'']\<rparr>"

definition tensor_cell_3 :: code_cell where
  "tensor_cell_3 = \<lparr>execution_count = None, source = [
     ''     t111, t121, t131     t112, t122, t132     t113, t123, t133'',
     ''T = (t211, t221, t231),  (t212, t222, t232),  (t213, t223, t233)'',
     ''     t311, t321, t331     t312, t322, t332     t313, t323, t333'']\<rparr>"

definition tensor_cell_5 :: code_cell where
  "tensor_cell_5 = \<lparr>execution_count = Some 1, source = [
     ''# create tensor'',
     ''from numpy import array'',
     ''T = array(['',
     ''  [[1,2,3],    [4,5,6],    [7,8,9]],'',
     ''  [[11,12,13], [14,15,16], [17,18,19]],'',
     ''  [[21,22,23], [24,25,26], [27,28,29]],'',
     ''  ])'',
     ''print(T.shape)'',
     ''print(T)'']\<rparr>"

definition tensor_cell_7 :: code_cell where
  "tensor_cell_7 = \<lparr>execution_count = None, source = [
     ''     a111, a121, a131     a112, a122, a132'',
     ''A = (a211, a221, a231),  (a112, a122, a132)'',
     '' '',
     ''     b111, b121, t131     b112, b122, b132'',
     ''B = (b211, t221, t231),  (b112, b122, b132)'',
     '' '',
     '' '',
     ''C = A + B'',
     '' '',
     ''     a111 + b111, a121 + b121, a131 + b131     a112 + b112, a122 + b122, a132 + b132'',
     ''C = (a211 + b211, a221 + b221, a231 + b231),  (a112 + b112, a122 + b122, a132 + b132)'']\<rparr>"

definition tensor_cell_9 :: code_cell where
  "tensor_cell_9 = \<lparr>execution_count = Some 2, source = [
     ''# tensor addition'',
     ''from numpy import array'',
     ''A = array(['',
     ''  [[1,2,3],    [4,5,6],    [7,8,9]],'',
     ''  [[11,12,13], [14,15,16], [17,18,19]],'',
     ''  [[21,22,23], [24,25,26], [27,28,29]],'',
     ''  ])'',
     ''B = array(['',
     ''  [[1,2,3],    [4,5,6],    [7,8,9]],'',
     ''  [[11,12,13], [14,15,16], [17,18,19]],'',
     ''  [[21,22,23], [24,25,26], [27,28,29]],'',
     ''  ])'',
     ''C = A + B'',
     ''print(C)'']\<rparr>"

definition tensor_cell_11 :: code_cell where
  "tensor_cell_11 = \<lparr>execution_count = None, source = [
     ''     a111, a121, a131     a112, a122, a132'',
     ''A = (a211, a221, a231),  (a112, a122, a132)'',
     '' '',
     ''     b111, b121, t131     b112, b122, b132'',
     ''B = (b211, t221, t231),  (b112, b122, b132)'',
     '' '',
     ''C = A - B'',
     '' '',
     ''     a111 - b111, a121 - b121, a131 - b131     a112 - b112, a122 - b122, a132 - b132'',
     ''C = (a211 - b211, a221 - b221, a231 - b231),  (a112 - b112, a122 - b122, a132 - b132)'']\<rparr>"

definition tensor_cell_13 :: code_cell where
  "tensor_cell_13 = \<lparr>execution_count = Some 3, source = [
     ''# tensor subtraction'',
     ''from numpy import array'',
     ''A = array(['',
     ''  [[1,2,3],    [4,5,6],    [7,8,9]],'',
     ''  [[11,12,13], [14,15,16], [17,18,19]],'',
     ''  [[21,22,23], [24,25,26], [27,28,29]],'',
     ''  ])'',
     ''B = array(['',
     ''  [[1,2,3],    [4,5,6],    [7,8,9]],'',
     ''  [[11,12,13], [14,15,16], [17,18,19]],'',
     ''  [[21,22,23], [24,25,26], [27,28,29]],'',
     ''  ])'',
     ''C = A - B'',
     ''print(C)'']\<rparr>"

definition tensor_cell_15 :: code_cell where
  "tensor_cell_15 = \<lparr>execution_count = None, source = [
     ''     a111, a121, a131     a112, a122, a132'',
     ''A = (a211, a221, a231),  (a112, a122, a132)'',
     '' '',
     ''     b111, b121, t131     b112, b122, b132'',
     ''B = (b211, t221, t231),  (b112, b122, b132)'',
     '' '',
     ''C = A o B'',
     '' '',
     ''     a111 * b111, a121 * b121, a131 * b131     a112 * b112, a122 * b122, a132 * b132'',
     ''C = (a211 * b211, a221 * b221, a231 * b231),  (a112 * b112, a122 * b122, a132 * b132)'']\<rparr>"

definition tensor_cell_17 :: code_cell where
  "tensor_cell_17 = \<lparr>execution_count = Some 4, source = [
     ''# tensor Hadamard product'',
     ''from numpy import array'',
     ''A = array(['',
     ''  [[1,2,3],    [4,5,6],    [7,8,9]],'',
     ''  [[11,12,13], [14,15,16], [17,18,19]],'',
     ''  [[21,22,23], [24,25,26], [27,28,29]],'',
     ''  ])'',
     ''B = array(['',
     ''  [[1,2,3],    [4,5,6],    [7,8,9]],'',
     ''  [[11,12,13], [14,15,16], [17,18,19]],'',
     ''  [[21,22,23], [24,25,26], [27,28,29]],'',
     ''  ])'',
     ''C = A * B'',
     ''print(C)'']\<rparr>"

definition tensor_cell_19 :: code_cell where
  "tensor_cell_19 = \<lparr>execution_count = None, source = [
     ''     a111, a121, a131     a112, a122, a132'',
     ''A = (a211, a221, a231),  (a112, a122, a132)'',
     '' '',
     ''     b111, b121, t131     b112, b122, b132'',
     ''B = (b211, t221, t231),  (b112, b122, b132)'',
     '' '',
     ''C = A / B'',
     '' '',
     ''     a111 / b111, a121 / b121, a131 / b131     a112 / b112, a122 / b122, a132 / b132'',
     ''C = (a211 / b211, a221 / b221, a231 / b231),  (a112 / b112, a122 / b122, a132 / b132)'']\<rparr>"

definition tensor_cell_21 :: code_cell where
  "tensor_cell_21 = \<lparr>execution_count = Some 5, source = [
     ''# tensor division'',
     ''from numpy import array'',
     ''A = array(['',
     ''  [[1,2,3],    [4,5,6],    [7,8,9]],'',
     ''  [[11,12,13], [14,15,16], [17,18,19]],'',
     ''  [[21,22,23], [24,25,26], [27,28,29]],'',
     ''  ])'',
     ''B = array(['',
     ''  [[1,2,3],    [4,5,6],    [7,8,9]],'',
     ''  [[11,12,13], [14,15,16], [17,18,19]],'',
     ''  [[21,22,23], [24,25,26], [27,28,29]],'',
     ''  ])'',
     ''C = A / B'',
     ''print(C)'']\<rparr>"

definition tensor_cell_23 :: code_cell where
  "tensor_cell_23 = \<lparr>execution_count = None, source = [
     ''a = (a1, a2)'',
     '' '',
     ''b = (b1, b2)'',
     '' '',
     ''c = a (x) b'',
     '' '',
     ''     a1 * [b1, b2]'',
     ''c = (a2 * [b1, b2])'']\<rparr>"

definition tensor_cell_25 :: code_cell where
  "tensor_cell_25 = \<lparr>execution_count = None, source = [
     ''     a1 * b1, a1 * b2'',
     ''c = (a2 * b1, a2 * b2)'']\<rparr>"

definition tensor_cell_27 :: code_cell where
  "tensor_cell_27 = \<lparr>execution_count = None, source = [
     ''     a11, a12'',
     ''A = (a21, a22)'',
     '' '',
     ''     b11, b12'',
     ''B = (b21, b22)'',
     '' '',
     ''C = A (x) B'',
     '' '',
     ''            b11, b12          b11, b12'',
     ''     a11 * (b21, b22), a12 * (b21, b22)'',
     ''C = [       b11, b12          b11, b12 ]'',
     ''     a21 * (b21, b22), a22 * (b21, b22)'']\<rparr>"

definition tensor_cell_29 :: code_cell where
  "tensor_cell_29 = \<lparr>execution_count = None, source = [
     ''     a11 * b11, a11 * b12, a12 * b11, a12 * b12'',
     ''     a11 * b21, a11 * b22, a12 * b21, a12 * b22'',
     ''C = (a21 * b11, a21 * b12, a22 * b11, a22 * b12)'',
     ''     a21 * b21, a21 * b22, a22 * b21, a22 * b22'']\<rparr>"

definition tensor_cell_31 :: code_cell where
  "tensor_cell_31 = \<lparr>execution_count = Some 6, source = [
     ''# tensor product'',
     ''from numpy import array'',
     ''from numpy import tensordot'',
     ''A = array([1,2])'',
     ''B = array([3,4])'',
     ''C = tensordot(A, B, axes=0)'',
     ''print(C)'']\<rparr>"

definition tuning_cell_1 :: code_cell where
  "tuning_cell_1 = \<lparr>execution_count = Some 1, source = [
     ''# Grid Search for Algorithm Tuning'',
     ''import numpy as np'',
     ''from sklearn import datasets'',
     ''from sklearn.linear_model import Ridge'',
     ''from sklearn.model_selection import GridSearchCV'',
     ''# load the diabetes datasets'',
     ''dataset = datasets.load_diabetes()'',
     ''# prepare a range of alpha values to test'',
     ''alphas = np.array([1,0.1,0.01,0.001,0.0001,0])'',
     ''# create and fit a ridge regression model, testing each alpha'',
     ''model = Ridge()'',
     ''grid = GridSearchCV(estimator=model, param_grid=dict(alpha=alphas))'',
     ''grid.fit(dataset.data, dataset.target)'',
     ''print(grid)'',
     ''# summarize the results of the grid search'',
     ''print(grid.best_score_)'',
     ''print(grid.best_estimator_.alpha)'']\<rparr>"

definition tuning_cell_3 :: code_cell where
  "tuning_cell_3 = \<lparr>execution_count = Some 2, source = [
     ''# Randomized Search for Algorithm Tuning'',
     ''import numpy as np'',
     ''from scipy.stats import uniform as sp_rand'',
     ''from sklearn import datasets'',
     ''from sklearn.linear_model import Ridge'',
     ''from sklearn.model_selection import RandomizedSearchCV'',
     ''# load the diabetes datasets'',
     ''dataset = datasets.load_diabetes()'',
     ''# prepare a uniform distribution to sample for the alpha parameter'',
     ''param_grid = {'alpha': sp_rand()}'',
     ''# create and fit a ridge regression model, testing random alpha values'',
     ''model = Ridge()'',
     ''rsearch = RandomizedSearchCV(estimator=model, param_distributions=param_grid, n_iter=100)'',
     ''rsearch.fit(dataset.data, dataset.target)'',
     ''print(rsearch)'',
     ''# summarize the results of the random parameter search'',
     ''print(rsearch.best_score_)'',
     ''print(rsearch.best_estimator_.alpha)'']\<rparr>"

definition cnn_cell_3 :: code_cell where
  "cnn_cell_3 = \<lparr>execution_count = None, source = [
     ''cnn = Sequential()'',
     ''cnn.add(Conv2D(1, (2,2), activation='relu', padding='same', input_shape=(10,10,1)))'',
     ''cnn.add(MaxPooling2D(pool_size=(2, 2)))'',
     ''cnn.add(Flatten())'']\<rparr>"

definition cnn_cell_5 :: code_cell where
  "cnn_cell_5 = \<lparr>execution_count = None, source = [
     ''model.add(TimeDistributed(...))'',
     ''model.add(LSTM(...))'',
     ''model.add(Dense(...))'']\<rparr>"

definition cnn_cell_7 :: code_cell where
  "cnn_cell_7 = \<lparr>execution_count = None, source = [
     ''# define CNN model'',
     ''cnn = Sequential()'',
     ''cnn.add(Conv2D(...))'',
     ''cnn.add(MaxPooling2D(...))'',
     ''cnn.add(Flatten())'',
     ''# define LSTM model'',
     ''model = Sequential()'',
     ''model.add(TimeDistributed(cnn, ...))'',
     ''model.add(LSTM(..))'',
     ''model.add(Dense(...))'']\<rparr>"

definition cnn_cell_9 :: code_cell where
  "cnn_cell_9 = \<lparr>execution_count = None, source = [
     ''model = Sequential()'',
     ''# define CNN model'',
     ''model.add(TimeDistributed(Conv2D(...))'',
     ''model.add(TimeDistributed(MaxPooling2D(...)))'',
     ''model.add(TimeDistributed(Flatten()))'',
     ''# define LSTM model'',
     ''model.add(LSTM(...))'',
     ''model.add(Dense(...))'']\<rparr>"

definition svd_notebook :: "code_cell list" where
  "svd_notebook = [svd_cell_3,
     svd_cell_6,
     svd_cell_8,
     svd_cell_10,
     svd_cell_12,
     svd_cell_14,
     svd_cell_16,
     svd_cell_18,
     svd_cell_20,
     svd_cell_22,
     svd_cell_23,
     svd_cell_25,
     svd_cell_27,
     svd_cell_29,
     svd_cell_31,
     svd_cell_33,
     svd_cell_35,
     svd_cell_37,
     svd_cell_39]"

definition tensor_notebook :: "code_cell list" where
  "tensor_notebook = [tensor_cell_3,
     tensor_cell_5,
     tensor_cell_7,
     tensor_cell_9,
     tensor_cell_11,
     tensor_cell_13,
     tensor_cell_15,
     tensor_cell_17,
     tensor_cell_19,
     tensor_cell_21,
     tensor_cell_23,
     tensor_cell_25,
     tensor_cell_27,
     tensor_cell_29,
     tensor_cell_31]"

definition tuning_notebook :: "code_cell list" where
  "tuning_notebook = [tuning_cell_1,
     tuning_cell_3]"

definition cnn_notebook :: "code_cell list" where
  "cnn_notebook = [cnn_cell_3,
     cnn_cell_5,
     cnn_cell_7,
     cnn_cell_9]"

definition all_code_cells :: "code_cell list" where
  "all_code_cells = svd_notebook @ tensor_notebook @ tuning_notebook @ cnn_notebook"

text \<open>A cell was run when the notebook records an execution count for it.\<close>

definition executed :: "code_cell \<Rightarrow> bool" where
  "executed c = (execution_count c \<noteq> None)"

definition line_count :: "code_cell \<Rightarrow> nat" where
  "line_count c = length (source c)"

section \<open>Lexical structure of a cell\<close>

text \<open>
  The claims about what a cell calls, prints, reads and binds are statements about its
  source text. Each line is split into tokens the way Python's tokenizer splits the
  straight-line fragment the cells are written in: names, numbers, quoted strings and
  single punctuation characters; blanks separate tokens and a \<open>#\<close> starts a comment
  that runs to the end of the line. The lexer is a state machine over the characters of
  a line; the tokens it has produced are kept in reverse order.
\<close>

datatype token = Ident string | Num string | Str string | Sym char

datatype lex_state = Idle | InIdent string | InNum string | InStr char string | InComment

definition is_letter :: "char \<Rightarrow> bool" where
  "is_letter c = (c \<in> set ''abcdefghijklmnopqrstuvwxyzABCDEFGHIJKLMNOPQRSTUVWXYZ_'')"

definition is_digit :: "char \<Rightarrow> bool" where
  "is_digit c = (c \<in> set ''0123456789'')"

definition is_quote :: "char \<Rightarrow> bool" where
  "is_quote c = (c = CHR 0x27 \<or> c = CHR 0x22)"

definition is_space :: "char \<Rightarrow> bool" where
  "is_space c = (c = CHR '' '' \<or> c = CHR 0x09)"

definition start_token :: "char \<Rightarrow> token list \<Rightarrow> lex_state \<times> token list" where
  "start_token c out =
     (if c = CHR ''#'' then (InComment, out)
      else if is_quote c then (InStr c [], out)
      else if is_letter c then (InIdent [c], out)
      else if is_digit c then (InNum [c], out)
      else if is_space c then (Idle, out)
      else (Idle, Sym c # out))"

fun lex_step :: "lex_state \<times> token list \<Rightarrow> char \<Rightarrow> lex_state \<times> token list" where
  "lex_step (Idle, out) c = start_token c out"
| "lex_step (InIdent s, out) c =
     (if is_letter c then (InIdent (s @ [c]), out)
      else if is_digit c then (InIdent (s @ [c]), out)
      else start_token c (Ident s # out))"
| "lex_step (InNum s, out) c =
     (if is_digit c then (InNum (s @ [c]), out)
      else if is_letter c then (InNum (s @ [c]), out)
      else if c = CHR ''.'' then (InNum (s @ [c]), out)
      else start_token c (Num s # out))"
| "lex_step (InStr q s, out) c =
     (if c = q then (Idle, Str s # out) else (InStr q (s @ [c]), out))"
| "lex_step (InComment, out) c = (InComment, out)"

fun lex_flush :: "lex_state \<times> token list \<Rightarrow> token list" where
  "lex_flush (InIdent s, out) = Ident s # out"
| "lex_flush (InNum s, out) = Num s # out"
| "lex_flush (InStr q s, out) = Str s # out"
| "lex_flush (Idle, out) = out"
| "lex_flush (InComment, out) = out"

fun lex_chars :: "lex_state \<times> token list \<Rightarrow> string \<Rightarrow> token list" where
  "lex_chars p [] = lex_flush p"
| "lex_chars p (c # cs) = lex_chars (lex_step p c) cs"

definition lex_line :: "string \<Rightarrow> token list" where
  "lex_line l = rev (lex_chars (Idle, []) l)"

definition cell_lines :: "code_cell \<Rightarrow> token list list" where
  "cell_lines c = map lex_line (source c)"

text \<open>
  A statement ends at the end of a line unless a bracket is still open, as in the
  array literals that run over several lines. Blank and comment lines hold no
  statement.
\<close>

definition is_open :: "char \<Rightarrow> bool" where
  "is_open c = (c \<in> set ''([{'')"

definition is_close :: "char \<Rightarrow> bool" where
  "is_close c = (c \<in> set '')]}'')"

fun depth_after :: "nat \<Rightarrow> token list \<Rightarrow> nat" where
  "depth_after d [] = d"
| "depth_after d (Sym c # ts) =
     (if is_open c then depth_after (Suc d) ts
      else if is_close c then depth_after (d - 1) ts
      else depth_after d ts)"
| "depth_after d (t # ts) = depth_after d ts"

fun group_lines :: "nat \<Rightarrow> token list \<Rightarrow> token list list \<Rightarrow> token list list" where
  "group_lines d cur [] = (if cur = [] then [] else [cur])"
| "group_lines d cur (l # ls) =
     (if depth_after d l = 0 then
        (if cur @ l = [] then group_lines 0 [] ls else (cur @ l) # group_lines 0 [] ls)
      else group_lines (depth_after d l) (cur @ l) ls)"

definition cell_stmts :: "code_cell \<Rightarrow> token list list" where
  "cell_stmts c = group_lines 0 [] (cell_lines c)"


section \<open>Calls, prints and failure handling\<close>

text \<open>
  A call is a name directly followed by an opening parenthesis. \<open>print\<close> is counted
  apart: it is the statement (Python 2) or builtin (Python 3) that writes the cell's
  output.
\<close>

fun call_sites :: "token list \<Rightarrow> string list" where
  "call_sites (Ident f # Sym c # ts) =
     (if c = CHR ''('' then f # call_sites ts else call_sites ts)"
| "call_sites (t # ts) = call_sites ts"
| "call_sites [] = []"

definition stmt_calls :: "token list \<Rightarrow> string list" where
  "stmt_calls st = filter (\<lambda>f. f \<noteq> ''print'') (call_sites st)"

definition library_calls :: "code_cell \<Rightarrow> string list" where
  "library_calls c = concat (map stmt_calls (cell_stmts c))"

definition is_print :: "token list \<Rightarrow> bool" where
  "is_print st = (case st of Ident f # _ \<Rightarrow> f = ''print'' | _ \<Rightarrow> False)"

definition print_count :: "code_cell \<Rightarrow> nat" where
  "print_count c = length (filter is_print (cell_stmts c))"

definition ends_with_print :: "code_cell \<Rightarrow> bool" where
  "ends_with_print c = (cell_stmts c \<noteq> [] \<and> is_print (last (cell_stmts c)))"

text \<open>
  The keywords with which Python code guards, catches or transforms a failure, or
  branches at all.
\<close>

definition guard_keywords :: "string list" where
  "guard_keywords = [''try'', ''except'', ''finally'', ''raise'', ''assert'', ''if'',
     ''elif'', ''else'', ''while'', ''for'', ''with'', ''def'', ''lambda'']"

fun idents :: "token list \<Rightarrow> string list" where
  "idents [] = []"
| "idents (Ident x # ts) = x # idents ts"
| "idents (t # ts) = idents ts"

definition stmt_guarded :: "token list \<Rightarrow> bool" where
  "stmt_guarded st = (\<exists>x \<in> set (idents st). x \<in> set guard_keywords)"

definition handles_failure :: "code_cell \<Rightarrow> bool" where
  "handles_failure c = (\<exists>st \<in> set (cell_stmts c). stmt_guarded st)"

section \<open>Names a cell reads and binds\<close>

text \<open>
  An import binds the last name of the statement (\<open>import numpy as np\<close> binds
  \<open>np\<close>). An assignment whose target is a name or a tuple of names binds them and
  reads the names of its right-hand side; an assignment to a subscript
  (\<open>Sigma[:n, :n] = diag(s)\<close>) binds nothing and reads the names on both sides. A
  name after a dot is an attribute and a name before \<open>=\<close> inside a call is a keyword
  argument; neither is a variable.
\<close>

record stmt_names =
  reads :: "string list"
  binds :: "string list"

definition py_keywords :: "string list" where
  "py_keywords = [''None'', ''True'', ''False'', ''and'', ''or'', ''not'', ''in'', ''is'',
     ''as'', ''from'', ''import'']"

definition is_keyword_arg :: "token list \<Rightarrow> bool" where
  "is_keyword_arg ts =
     (case ts of
        Sym a # Sym b # _ \<Rightarrow> a = CHR ''='' \<and> b \<noteq> CHR ''=''
      | Sym a # _ \<Rightarrow> a = CHR ''=''
      | _ \<Rightarrow> False)"

fun names_read :: "bool \<Rightarrow> token list \<Rightarrow> string list" where
  "names_read after_dot [] = []"
| "names_read after_dot (Ident x # ts) =
     (if after_dot then names_read False ts
      else if is_keyword_arg ts then names_read False ts
      else if x \<in> set py_keywords then names_read False ts
      else x # names_read False ts)"
| "names_read after_dot (Sym c # ts) = names_read (c = CHR ''.'') ts"
| "names_read after_dot (t # ts) = names_read False ts"

fun split_assign :: "nat \<Rightarrow> token list \<Rightarrow> token list \<Rightarrow> (token list \<times> token list) option" where
  "split_assign d lhs [] = None"
| "split_assign d lhs (Sym c # ts) =
     (if c = CHR ''='' \<and> d = 0 then
        (case ts of Sym e # _ \<Rightarrow> if e = CHR ''='' then None else Some (lhs, ts)
                  | _ \<Rightarrow> Some (lhs, ts))
      else if is_open c then split_assign (Suc d) (lhs @ [Sym c]) ts
      else if is_close c then split_assign (d - 1) (lhs @ [Sym c]) ts
      else split_assign d (lhs @ [Sym c]) ts)"
| "split_assign d lhs (t # ts) = split_assign d (lhs @ [t]) ts"

definition simple_target :: "token list \<Rightarrow> bool" where
  "simple_target lhs =
     (lhs \<noteq> [] \<and> list_all (\<lambda>t. case t of Ident _ \<Rightarrow> True | Sym c \<Rightarrow> c = CHR '','' | _ \<Rightarrow> False) lhs)"

definition is_import :: "token list \<Rightarrow> bool" where
  "is_import st = (case st of Ident k # _ \<Rightarrow> k = ''from'' \<or> k = ''import'' | _ \<Rightarrow> False)"

definition analyse :: "token list \<Rightarrow> stmt_names" where
  "analyse st =
     (if is_import st then \<lparr>reads = [], binds = [last (idents st)]\<rparr>
      else case split_assign 0 [] st of
        Some (lhs, rhs) \<Rightarrow>
          if simple_target lhs then \<lparr>reads = names_read False rhs, binds = idents lhs\<rparr>
          else \<lparr>reads = names_read False rhs @ names_read False lhs, binds = []\<rparr>
      | None \<Rightarrow> \<lparr>reads = names_read False st, binds = []\<rparr>)"

definition cell_names :: "code_cell \<Rightarrow> stmt_names list" where
  "cell_names c = map analyse (cell_stmts c)"

definition cell_binds :: "code_cell \<Rightarrow> string list" where
  "cell_binds c = concat (map binds (cell_names c))"

text \<open>The builtin names the cells use; every other name has to be bound by a statement.\<close>

definition builtins :: "string list" where
  "builtins = [''print'', ''dict'']"

text \<open>
  The free names of a cell: the names a statement reads that no earlier statement of the
  same cell has bound and that are not builtins.
\<close>

fun free_names :: "string list \<Rightarrow> stmt_names list \<Rightarrow> string list" where
  "free_names own [] = []"
| "free_names own (s # ss) =
     filter (\<lambda>x. x \<notin> set own \<and> x \<notin> set builtins) (reads s) @ free_names (binds s @ own) ss"

definition cell_free_names :: "code_cell \<Rightarrow> string list" where
  "cell_free_names c = free_names [] (cell_names c)"

text \<open>
  All of the above for one cell, computed from one pass over its statements.
\<close>

record cell_summary =
  free :: "string list"
  bound :: "string list"
  calls :: "string list"
  prints :: nat
  last_prints :: bool
  guarded :: bool

definition summarise_names :: "token list list \<Rightarrow> stmt_names list \<Rightarrow> cell_summary" where
  "summarise_names stmts names =
     \<lparr>free = free_names [] names,
      bound = concat (map binds names),
      calls = concat (map stmt_calls stmts),
      prints = length (filter is_print stmts),
      last_prints = (stmts \<noteq> [] \<and> is_print (last stmts)),
      guarded = (\<exists>st \<in> set stmts. stmt_guarded st)\<rparr>"

definition summarise :: "token list list \<Rightarrow> cell_summary" where
  "summarise stmts = summarise_names stmts (map analyse stmts)"

definition summary :: "code_cell \<Rightarrow> cell_summary" where
  "summary c = summarise (cell_stmts c)"


section \<open>Name resolution in a kernel\<close>

text \<open>
  The cells of a notebook run in one kernel, whose namespace keeps the names earlier
  cells have bound. A name a cell reads is looked up in that namespace, where a binding
  made by the cell itself overrides one left by another cell, and then among the
  builtins; a name found nowhere raises \<open>NameError\<close> and ends the cell. The lookups
  of a cell, each with where it resolves, are its name trace; \<open>env\<close> holds the names
  the kernel has when the cell starts.
\<close>

datatype origin = Own | Foreign | Builtin

definition lookup :: "(string \<Rightarrow> bool) \<Rightarrow> string list \<Rightarrow> string \<Rightarrow> origin option" where
  "lookup env own x =
     (if x \<in> set own then Some Own
      else if env x then Some Foreign
      else if x \<in> set builtins then Some Builtin
      else None)"

fun resolve :: "(string \<Rightarrow> bool) \<Rightarrow> string list \<Rightarrow> stmt_names list \<Rightarrow> (string \<times> origin option) list" where
  "resolve env own [] = []"
| "resolve env own (s # ss) =
     map (\<lambda>x. (x, lookup env own x)) (reads s) @ resolve env (binds s @ own) ss"

fun until_unbound :: "(string \<times> origin option) list \<Rightarrow> (string \<times> origin option) list" where
  "until_unbound [] = []"
| "until_unbound ((x, None) # ps) = [(x, None)]"
| "until_unbound (p # ps) = p # until_unbound ps"

definition name_trace :: "(string \<Rightarrow> bool) \<Rightarrow> code_cell \<Rightarrow> (string \<times> origin option) list" where
  "name_trace env c = until_unbound (resolve env [] (cell_names c))"

text \<open>A fresh kernel has no names; a kernel other cells have run in has names they bind.\<close>

definition fresh :: "string \<Rightarrow> bool" where
  "fresh x = False"

definition left_by_cells :: "(string \<Rightarrow> bool) \<Rightarrow> bool" where
  "left_by_cells env = (\<forall>x. env x \<longrightarrow> (\<exists>c \<in> set all_code_cells. x \<in> set (cell_binds c)))"

definition self_contained :: "(string \<times> origin option) list \<Rightarrow> bool" where
  "self_contained trace = (\<forall>p \<in> set trace. snd p = Some Own \<or> snd p = Some Builtin)"

section \<open>NumPy arrays in exact arithmetic\<close>

text \<open>
  The code cells compute with NumPy arrays in double precision. The model computes with
  real numbers, the exact arithmetic in which the identities of the SVD tutorial hold. A
  vector is a list. A two-dimensional array carries its shape, \<^verbatim>\<open>A.shape[0]\<close> and
  \<^verbatim>\<open>A.shape[1]\<close>, and its rows, so that the arrays of shape \<open>(0, n)\<close> and
  \<open>(m, 0)\<close> that a slice may produce are arrays like any other.
\<close>

datatype 'a array = Array (nrows: nat) (ncols: nat) (rows: "'a list list")

type_synonym vec = "real list"

type_synonym matrix = "real array"

definition entry :: "'a array \<Rightarrow> nat \<Rightarrow> nat \<Rightarrow> 'a" where
  "entry A i j = rows A ! i ! j"

definition is_array :: "'a array \<Rightarrow> bool" where
  "is_array A = (length (rows A) = nrows A \<and> (\<forall>r \<in> set (rows A). length r = ncols A))"

text \<open>The array of a given shape whose entry at \<open>(i, j)\<close> is \<open>f i j\<close>.\<close>

definition tabulate :: "nat \<Rightarrow> nat \<Rightarrow> (nat \<Rightarrow> nat \<Rightarrow> 'a) \<Rightarrow> 'a array" where
  "tabulate m n f = Array m n (map (\<lambda>i. map (f i) [0..<n]) [0..<m])"

text \<open>\<^verbatim>\<open>array([[...], ...])\<close> of a list of rows of one length.\<close>

definition array :: "'a list list \<Rightarrow> 'a array" where
  "array xs = Array (length xs) (case xs of [] \<Rightarrow> 0 | r # _ \<Rightarrow> length r) xs"

text \<open>
  What interrupts a cell is an exception: \<open>ValueError\<close> is raised for operands whose
  shapes do not fit, \<open>LinAlgError\<close> by a decomposition that does not converge. A cell
  that raises prints nothing further.
\<close>

datatype failure = ValueError | LinAlgError

definition and_then :: "failure + 'a \<Rightarrow> ('a \<Rightarrow> failure + 'b) \<Rightarrow> failure + 'b" where
  "and_then r f = (case r of Inl e \<Rightarrow> Inl e | Inr x \<Rightarrow> f x)"

text \<open>
  A division by zero is no exception. With NumPy's default error settings, which no cell
  changes, it issues a \<open>RuntimeWarning\<close>, stores \<open>inf\<close> in an array of floats and
  \<open>0\<close> in an array of integers, and the cell goes on. A float is therefore a real
  number, an infinity or \<open>nan\<close>, with the arithmetic of IEEE 754 on the last three;
  an operation that may warn returns, with its value, whether it did.
\<close>

datatype float = Finite real | PosInf | NegInf | NaN

text \<open>An infinity times a real number: \<open>nan\<close> for 0, else the infinity of the sign.\<close>

definition scale_inf :: "bool \<Rightarrow> real \<Rightarrow> float" where
  "scale_inf positive a =
     (if a = 0 then NaN else if (0 < a) = positive then PosInf else NegInf)"

instantiation float :: "{zero, plus, times}"
begin

definition zero_float :: float where
  "zero_float = Finite 0"

fun plus_float :: "float \<Rightarrow> float \<Rightarrow> float" where
  "plus_float (Finite a) (Finite b) = Finite (a + b)"
| "plus_float NaN y = NaN"
| "plus_float x NaN = NaN"
| "plus_float PosInf NegInf = NaN"
| "plus_float NegInf PosInf = NaN"
| "plus_float PosInf y = PosInf"
| "plus_float x PosInf = PosInf"
| "plus_float NegInf y = NegInf"
| "plus_float x NegInf = NegInf"

fun times_float :: "float \<Rightarrow> float \<Rightarrow> float" where
  "times_float (Finite a) (Finite b) = Finite (a * b)"
| "times_float NaN y = NaN"
| "times_float x NaN = NaN"
| "times_float PosInf (Finite b) = scale_inf True b"
| "times_float NegInf (Finite b) = scale_inf False b"
| "times_float (Finite a) PosInf = scale_inf True a"
| "times_float (Finite a) NegInf = scale_inf False a"
| "times_float PosInf PosInf = PosInf"
| "times_float NegInf NegInf = PosInf"
| "times_float PosInf NegInf = NegInf"
| "times_float NegInf PosInf = NegInf"

instance ..

end

definition is_finite :: "float \<Rightarrow> bool" where
  "is_finite x = (case x of Finite _ \<Rightarrow> True | _ \<Rightarrow> False)"

text \<open>The array of floats that holds the given real numbers.\<close>

definition floats :: "real array \<Rightarrow> float array" where
  "floats A = Array (nrows A) (ncols A) (map (map Finite) (rows A))"

text \<open>\<^verbatim>\<open>zeros((m, n))\<close>, \<^verbatim>\<open>diag(s)\<close> of a vector, and the transpose \<^verbatim>\<open>A.T\<close>.\<close>

definition zeros :: "nat \<Rightarrow> nat \<Rightarrow> 'a::zero array" where
  "zeros m n = tabulate m n (\<lambda>i j. 0)"

definition diag :: "'a::zero list \<Rightarrow> 'a array" where
  "diag s = tabulate (length s) (length s) (\<lambda>i j. if i = j then s ! i else 0)"

definition tr :: "'a array \<Rightarrow> 'a array" where
  "tr A = tabulate (ncols A) (nrows A) (\<lambda>i j. entry A j i)"

text \<open>
  \<^verbatim>\<open>A.dot(B)\<close>: the matrix product, a \<open>ValueError\<close> when the number of columns of
  \<open>A\<close> is not the number of rows of \<open>B\<close>. An entry of the product is the sum of
  the products along a row and a column; without rounding the order of the sum does not
  matter.
\<close>

definition total :: "'a::{zero, plus} list \<Rightarrow> 'a" where
  "total xs = foldr (+) xs 0"

definition mat_mul :: "'a::{zero, plus, times} array \<Rightarrow> 'a array \<Rightarrow> 'a array" where
  "mat_mul A B =
     tabulate (nrows A) (ncols B)
       (\<lambda>i j. total (map (\<lambda>k. entry A i k * entry B k j) [0..<ncols A]))"

definition dot :: "'a::{zero, plus, times} array \<Rightarrow> 'a array \<Rightarrow> failure + 'a array" where
  "dot A B = (if ncols A = nrows B then Inr (mat_mul A B) else Inl ValueError)"

text \<open>
  \<^verbatim>\<open>S[:p, :p] = M\<close>: the slice \<open>S[:p, :p]\<close> has \<open>min p (nrows S)\<close> rows and
  \<open>min p (ncols S)\<close> columns. NumPy broadcasts \<open>M\<close> to that shape, which needs each
  dimension of \<open>M\<close> to be the slice's or to be 1 (a dimension of 1 is repeated), and
  raises \<open>ValueError\<close> otherwise. The cell mutates \<open>S\<close> in place; the model returns the
  new array.
\<close>

definition assign_block :: "'a array \<Rightarrow> nat \<Rightarrow> 'a array \<Rightarrow> failure + 'a array" where
  "assign_block S p M =
     (let r = min p (nrows S); c = min p (ncols S); a = nrows M; b = ncols M in
      if (a = r \<or> a = 1) \<and> (b = c \<or> b = 1) then
        Inr (tabulate (nrows S) (ncols S)
               (\<lambda>i j. if i < r \<and> j < c
                       then entry M (if a = 1 then 0 else i) (if b = 1 then 0 else j)
                       else entry S i j))
      else Inl ValueError)"

text \<open>The slices \<^verbatim>\<open>A[:, :k]\<close> and \<^verbatim>\<open>A[:k, :]\<close>.\<close>

definition take_cols :: "nat \<Rightarrow> 'a array \<Rightarrow> 'a array" where
  "take_cols k A = tabulate (nrows A) (min k (ncols A)) (entry A)"

definition take_rows :: "nat \<Rightarrow> 'a array \<Rightarrow> 'a array" where
  "take_rows k A = tabulate (min k (nrows A)) (ncols A) (entry A)"

text \<open>
  \<^verbatim>\<open>1.0 / s\<close>, elementwise, on the singular values (real numbers, none negative):
  the reciprocal of zero is \<open>inf\<close>, with a warning.
\<close>

definition float_reciprocal :: "real \<Rightarrow> float" where
  "float_reciprocal x = (if x = 0 then PosInf else Finite (1 / x))"

definition reciprocal :: "vec \<Rightarrow> bool \<times> float list" where
  "reciprocal s = (0 \<in> set s, map float_reciprocal s)"

definition identity :: "nat \<Rightarrow> matrix" where
  "identity n = diag (replicate n 1)"

definition column :: "vec \<Rightarrow> matrix" where
  "column v = tabulate (length v) 1 (\<lambda>i j. v ! i)"

section \<open>What the library promises\<close>

text \<open>
  \<open>svd\<close> and \<open>pinv\<close> are SciPy's and NumPy's, not the repository's: a cell takes them
  as parameters, and a theorem about a cell assumes what their documentation promises.
  Either routine returns its result or raises. For \<^verbatim>\<open>U, s, VT = svd(A)\<close> with \<open>A\<close>
  of shape \<open>(m, n)\<close>: \<open>U\<close> is an orthogonal \<open>m\<close> by \<open>m\<close> matrix, \<open>VT\<close> an
  orthogonal \<open>n\<close> by \<open>n\<close> matrix, \<open>s\<close> holds the \<open>min m n\<close> singular values,
  non-negative and in non-increasing order, and \<open>A = U S VT\<close> where \<open>S\<close> is the \<open>m\<close>
  by \<open>n\<close> matrix of zeros with \<open>s\<close> on its main diagonal (SciPy builds it with
  \<open>diagsvd\<close>).
\<close>

definition diagsvd :: "vec \<Rightarrow> nat \<Rightarrow> nat \<Rightarrow> matrix" where
  "diagsvd s m n = tabulate m n (\<lambda>i j. if i = j \<and> i < length s then s ! i else 0)"

definition orthogonal :: "matrix \<Rightarrow> bool" where
  "orthogonal Q =
     (is_array Q \<and> nrows Q = ncols Q \<and> mat_mul Q (tr Q) = identity (nrows Q) \<and>
      mat_mul (tr Q) Q = identity (nrows Q))"

type_synonym svd_fun = "matrix \<Rightarrow> failure + matrix \<times> vec \<times> matrix"

type_synonym pinv_fun = "matrix \<Rightarrow> failure + matrix"

definition svd_contract :: "matrix \<Rightarrow> matrix \<times> vec \<times> matrix \<Rightarrow> bool" where
  "svd_contract A r =
     (case r of (U, s, VT) \<Rightarrow>
        is_array A \<and> orthogonal U \<and> nrows U = nrows A \<and> orthogonal VT \<and> nrows VT = ncols A \<and>
        length s = min (nrows A) (ncols A) \<and> (\<forall>x \<in> set s. 0 \<le> x) \<and> sorted (rev s) \<and>
        mat_mul (mat_mul U (diagsvd s (nrows A) (ncols A))) VT = A)"

text \<open>
  \<^verbatim>\<open>pinv(A)\<close> is the Moore-Penrose pseudoinverse of \<open>A\<close>: the matrix that satisfies
  the four Penrose conditions.
\<close>

definition is_pinv :: "matrix \<Rightarrow> matrix \<Rightarrow> bool" where
  "is_pinv A P =
     (is_array P \<and> nrows P = ncols A \<and> ncols P = nrows A \<and>
      mat_mul (mat_mul A P) A = A \<and> mat_mul (mat_mul P A) P = P \<and>
      tr (mat_mul A P) = mat_mul A P \<and> tr (mat_mul P A) = mat_mul P A)"

text \<open>A matrix has full column rank when it maps no vector but zero to zero.\<close>

definition full_column_rank :: "matrix \<Rightarrow> bool" where
  "full_column_rank A =
     (\<forall>v. length v = ncols A \<and> mat_mul A (column v) = zeros (nrows A) 1
          \<longrightarrow> v = replicate (ncols A) 0)"

section \<open>The cells of the SVD notebook as functions\<close>

text \<open>
  Each cell is a function of the library routine it calls and of the matrix it defines;
  its value is what it prints after the matrix, or the exception that ends it. The
  matrices the cells define follow.
\<close>

definition rect_A :: matrix where
  "rect_A = array [[1, 2], [3, 4], [5, 6]]"


definition pinv_A :: matrix where
  "pinv_A = array [[0.1, 0.2], [0.3, 0.4], [0.5, 0.6], [0.7, 0.8]]"


text \<open>
  The rectangular reconstruction (\<open>svd_cell_12\<close>):
  \<^verbatim>\<open>
  U, s, VT = svd(A)
  Sigma = zeros((A.shape[0], A.shape[1]))
  Sigma[:A.shape[1], :A.shape[1]] = diag(s)
  B = U.dot(Sigma.dot(VT))
  \<close>
\<close>

definition reconstruct_rect :: "svd_fun \<Rightarrow> matrix \<Rightarrow> failure + matrix" where
  "reconstruct_rect svd A =
     and_then (svd A) (\<lambda>(U, s, VT).
     and_then (assign_block (zeros (nrows A) (ncols A)) (ncols A) (diag s)) (\<lambda>Sigma.
     and_then (dot Sigma VT) (\<lambda>SV.
     dot U SV)))"

text \<open>
  The square reconstruction (\<open>svd_cell_14\<close>):
  \<^verbatim>\<open>
  U, s, VT = svd(A)
  Sigma = diag(s)
  B = U.dot(Sigma.dot(VT))
  \<close>
\<close>

definition reconstruct_square :: "svd_fun \<Rightarrow> matrix \<Rightarrow> failure + matrix" where
  "reconstruct_square svd A =
     and_then (svd A) (\<lambda>(U, s, VT).
     and_then (dot (diag s) VT) (\<lambda>SV.
     dot U SV))"

text \<open>The library pseudoinverse (\<open>svd_cell_25\<close>): \<^verbatim>\<open>B = pinv(A)\<close>.\<close>

definition pinv_cell :: "pinv_fun \<Rightarrow> matrix \<Rightarrow> failure + matrix" where
  "pinv_cell pinv A = pinv A"

text \<open>
  The pseudoinverse through the SVD (\<open>svd_cell_29\<close>); its value is whether the
  division warned, and \<open>B\<close>:
  \<^verbatim>\<open>
  U, s, VT = svd(A)
  d = 1.0 / s
  D = zeros(A.shape)
  D[:A.shape[1], :A.shape[1]] = diag(d)
  B = VT.T.dot(D.T).dot(U.T)
  \<close>
\<close>

definition pinv_via_svd :: "svd_fun \<Rightarrow> matrix \<Rightarrow> failure + bool \<times> float array" where
  "pinv_via_svd svd A =
     and_then (svd A) (\<lambda>(U, s, VT).
     case reciprocal s of (warned, d) \<Rightarrow>
     and_then (assign_block (zeros (nrows A) (ncols A)) (ncols A) (diag d)) (\<lambda>D.
     and_then (dot (tr (floats VT)) (tr D)) (\<lambda>VD.
     and_then (dot VD (tr (floats U))) (\<lambda>B.
     Inr (warned, B)))))"

text \<open>
  The dimensionality reduction (\<open>svd_cell_37\<close>), where the cell sets
  \<open>n_elements = 2\<close>; its value is the reconstruction \<open>B\<close> and the two transforms
  \<open>T\<close>:
  \<^verbatim>\<open>
  U, s, VT = svd(A)
  Sigma = zeros((A.shape[0], A.shape[1]))
  Sigma[:A.shape[0], :A.shape[0]] = diag(s)
  Sigma = Sigma[:, :n_elements]
  VT = VT[:n_elements, :]
  B = U.dot(Sigma.dot(VT))
  T = U.dot(Sigma)
  T = A.dot(VT.T)
  \<close>
\<close>

definition reduce :: "svd_fun \<Rightarrow> matrix \<Rightarrow> nat \<Rightarrow> failure + matrix \<times> matrix \<times> matrix" where
  "reduce svd A n_elements =
     and_then (svd A) (\<lambda>(U, s, VT).
     and_then (assign_block (zeros (nrows A) (ncols A)) (nrows A) (diag s)) (\<lambda>Sigma0.
     let Sigma = take_cols n_elements Sigma0;
         VTk = take_rows n_elements VT in
     and_then (dot Sigma VTk) (\<lambda>SV.
     and_then (dot U SV) (\<lambda>B.
     and_then (dot U Sigma) (\<lambda>T1.
     and_then (dot A (tr VTk)) (\<lambda>T2.
     Inr (B, T1, T2)))))))"

section \<open>Tensor division\<close>

text \<open>
  The tensor notebook runs under Python 2 on arrays of integers, where \<^verbatim>\<open>A / B\<close> is
  the elementwise floor division, as the recorded output shows. Along each axis the two
  operands have the same length or one of them has length 1 and is repeated; other
  shapes raise \<open>ValueError\<close>. Dividing by zero stores 0 and warns; the value of the
  division is whether it warned, and the quotients.
\<close>

type_synonym tensor = "int list list list"

fun collect :: "(failure + bool \<times> 'a) list \<Rightarrow> failure + bool \<times> 'a list" where
  "collect [] = Inr (False, [])"
| "collect (r # rs) =
     and_then r (\<lambda>(w, x). and_then (collect rs) (\<lambda>(ws, xs). Inr (w \<or> ws, x # xs)))"

definition broadcast ::
  "('a \<Rightarrow> 'b \<Rightarrow> failure + bool \<times> 'c) \<Rightarrow> 'a list \<Rightarrow> 'b list \<Rightarrow> failure + bool \<times> 'c list" where
  "broadcast f xs ys =
     (if length xs = length ys then collect (map2 f xs ys)
      else if length xs = 1 then collect (map (f (hd xs)) ys)
      else if length ys = 1 then collect (map (\<lambda>x. f x (hd ys)) xs)
      else Inl ValueError)"

definition int_divide :: "int \<Rightarrow> int \<Rightarrow> bool \<times> int" where
  "int_divide a b = (b = 0, if b = 0 then 0 else a div b)"

definition tensor_divide :: "tensor \<Rightarrow> tensor \<Rightarrow> failure + bool \<times> tensor" where
  "tensor_divide A B = broadcast (broadcast (broadcast (\<lambda>a b. Inr (int_divide a b)))) A B"

text \<open>The two tensors of the division cell (\<open>tensor_cell_21\<close>).\<close>

definition tensor_A :: tensor where
  "tensor_A = [[[1,2,3],    [4,5,6],    [7,8,9]],
               [[11,12,13], [14,15,16], [17,18,19]],
               [[21,22,23], [24,25,26], [27,28,29]]]"

definition tensor_B :: tensor where
  "tensor_B = [[[1,2,3],    [4,5,6],    [7,8,9]],
               [[11,12,13], [14,15,16], [17,18,19]],
               [[21,22,23], [24,25,26], [27,28,29]]]"

definition entries :: "tensor \<Rightarrow> int list" where
  "entries T = concat (concat T)"

section \<open>Example inputs\<close>

text \<open>
  Matrices with a singular value decomposition in rational numbers, on which the
  theorems are evaluated: a tall, a square and a wide matrix with singular values 2 and
  1, a 2 by 2 matrix of rank 1 with singular values 1 and 0, and a routine that raises.
\<close>

definition demo_A :: matrix where
  "demo_A = array [[-4/5, 3/5], [6/5, 8/5], [0, 0]]"

definition demo_factors :: "matrix \<times> vec \<times> matrix" where
  "demo_factors =
     (array [[0, 1, 0], [1, 0, 0], [0, 0, 1]], [2, 1], array [[3/5, 4/5], [-4/5, 3/5]])"

definition demo_svd :: svd_fun where
  "demo_svd A = Inr demo_factors"

definition demo_P :: matrix where
  "demo_P = array [[-4/5, 3/10, 0], [3/5, 2/5, 0]]"

definition demo_pinv :: pinv_fun where
  "demo_pinv A = Inr demo_P"

definition demo_square_A :: matrix where
  "demo_square_A = array [[6/5, 8/5], [-4/5, 3/5]]"

definition demo_square_factors :: "matrix \<times> vec \<times> matrix" where
  "demo_square_factors = (array [[1, 0], [0, 1]], [2, 1], array [[3/5, 4/5], [-4/5, 3/5]])"

definition demo_square_svd :: svd_fun where
  "demo_square_svd A = Inr demo_square_factors"

definition demo_wide_A :: matrix where
  "demo_wide_A = array [[6/5, 8/5, 0], [-4/5, 3/5, 0]]"

definition demo_wide_factors :: "matrix \<times> vec \<times> matrix" where
  "demo_wide_factors =
     (array [[1, 0], [0, 1]], [2, 1], array [[3/5, 4/5, 0], [-4/5, 3/5, 0], [0, 0, 1]])"

definition demo_wide_svd :: svd_fun where
  "demo_wide_svd A = Inr demo_wide_factors"

definition demo_wide_P :: matrix where
  "demo_wide_P = array [[3/10, -4/5], [2/5, 3/5], [0, 0]]"

definition singular_A :: matrix where
  "singular_A = array [[1, 0], [0, 0]]"

definition singular_factors :: "matrix \<times> vec \<times> matrix" where
  "singular_factors = (array [[1, 0], [0, 1]], [1, 0], array [[1, 0], [0, 1]])"

definition singular_svd :: svd_fun where
  "singular_svd A = Inr singular_factors"

definition failing_svd :: svd_fun where
  "failing_svd A = Inl LinAlgError"

section \<open>Character classes by bit pattern\<close>

text \<open>
  The character classes as conditions on the eight bits of a character (least
  significant first), for evaluation.
\<close>

lemma is_letter_bits [code]:
  "is_letter (Char b0 b1 b2 b3 b4 b5 b6 b7) =
     (\<not> b7 \<and> b6 \<and>
      ((b0 \<or> b1 \<or> b2 \<or> b3 \<or> b4) \<and> \<not> (b4 \<and> b3 \<and> (b2 \<or> (b1 \<and> b0)))
       \<or> (\<not> b5 \<and> b0 \<and> b1 \<and> b2 \<and> b3 \<and> b4)))"
  by (cases b0; cases b1; cases b2; cases b3; cases b4; cases b5; cases b6; cases b7)
     (simp_all add: is_letter_def)

lemma is_digit_bits [code]:
  "is_digit (Char b0 b1 b2 b3 b4 b5 b6 b7) =
     (\<not> b7 \<and> \<not> b6 \<and> b5 \<and> b4 \<and> (\<not> b3 \<or> (\<not> b2 \<and> \<not> b1)))"
  by (cases b0; cases b1; cases b2; cases b3; cases b4; cases b5; cases b6; cases b7)
     (simp_all add: is_digit_def)


section \<open>What each cell reads, binds, calls and prints\<close>

text \<open>
  The summary of every code cell, evaluated from its source text.
\<close>

lemma svd_cell_3_summary:
  "summary svd_cell_3 =
     \<lparr>free = [''U'', ''T''],
      bound = [''A''],
      calls = [],
      prints = 0,
      last_prints = False,
      guarded = False\<rparr>"
  by code_simp

lemma svd_cell_6_summary:
  "summary svd_cell_6 =
     \<lparr>free = [],
      bound = [''array'', ''svd'', ''A'', ''U'', ''s'', ''VT''],
      calls = [''array'', ''svd''],
      prints = 4,
      last_prints = True,
      guarded = False\<rparr>"
  by code_simp

lemma svd_cell_8_summary:
  "summary svd_cell_8 =
     \<lparr>free = [''U'', ''m'', ''x'', ''m'', ''m'', ''x'', ''m'', ''T'', ''n'', ''x'',
        ''n''],
      bound = [],
      calls = [''U'', ''Sigma'', ''T''],
      prints = 0,
      last_prints = False,
      guarded = False\<rparr>"
  by code_simp

lemma svd_cell_10_summary:
  "summary svd_cell_10 =
     \<lparr>free = [''U'', ''m'', ''x'', ''m'', ''m'', ''x'', ''n'', ''T'', ''n'', ''x'',
        ''n''],
      bound = [],
      calls = [''U'', ''Sigma'', ''T''],
      prints = 0,
      last_prints = False,
      guarded = False\<rparr>"
  by code_simp

lemma svd_cell_12_summary:
  "summary svd_cell_12 =
     \<lparr>free = [],
      bound = [''array'', ''diag'', ''dot'', ''zeros'', ''svd'', ''A'', ''U'', ''s'',
        ''VT'', ''Sigma'', ''B''],
      calls = [''array'', ''svd'', ''zeros'', ''diag'', ''dot'', ''dot''],
      prints = 2,
      last_prints = True,
      guarded = False\<rparr>"
  by code_simp

lemma svd_cell_14_summary:
  "summary svd_cell_14 =
     \<lparr>free = [],
      bound = [''array'', ''diag'', ''dot'', ''svd'', ''A'', ''U'', ''s'', ''VT'',
        ''Sigma'', ''B''],
      calls = [''array'', ''svd'', ''diag'', ''dot'', ''dot''],
      prints = 2,
      last_prints = True,
      guarded = False\<rparr>"
  by code_simp

lemma svd_cell_16_summary:
  "summary svd_cell_16 =
     \<lparr>free = [''V'', ''T'', ''A''],
      bound = [],
      calls = [],
      prints = 0,
      last_prints = False,
      guarded = False\<rparr>"
  by code_simp

lemma svd_cell_18_summary:
  "summary svd_cell_18 =
     \<lparr>free = [''VD'', ''U'', ''T'', ''A''],
      bound = [],
      calls = [],
      prints = 0,
      last_prints = False,
      guarded = False\<rparr>"
  by code_simp

lemma svd_cell_20_summary:
  "summary svd_cell_20 =
     \<lparr>free = [''U'', ''T''],
      bound = [''A''],
      calls = [],
      prints = 0,
      last_prints = False,
      guarded = False\<rparr>"
  by code_simp

lemma svd_cell_22_summary:
  "summary svd_cell_22 =
     \<lparr>free = [''s11'', ''s22'', ''s33''],
      bound = [''Sigma''],
      calls = [],
      prints = 0,
      last_prints = False,
      guarded = False\<rparr>"
  by code_simp

lemma svd_cell_23_summary:
  "summary svd_cell_23 =
     \<lparr>free = [''s11'', ''s22'', ''D'', ''s33''],
      bound = [],
      calls = [],
      prints = 0,
      last_prints = False,
      guarded = False\<rparr>"
  by code_simp

lemma svd_cell_25_summary:
  "summary svd_cell_25 =
     \<lparr>free = [],
      bound = [''array'', ''pinv'', ''A'', ''B''],
      calls = [''array'', ''pinv''],
      prints = 2,
      last_prints = True,
      guarded = False\<rparr>"
  by code_simp

lemma svd_cell_27_summary:
  "summary svd_cell_27 =
     \<lparr>free = [''V'', ''V'', ''A''],
      bound = [],
      calls = [],
      prints = 0,
      last_prints = False,
      guarded = False\<rparr>"
  by code_simp

lemma svd_cell_29_summary:
  "summary svd_cell_29 =
     \<lparr>free = [],
      bound = [''array'', ''svd'', ''zeros'', ''diag'', ''A'', ''U'', ''s'', ''VT'',
        ''d'', ''D'', ''B''],
      calls = [''array'', ''svd'', ''zeros'', ''diag'', ''dot'', ''dot''],
      prints = 2,
      last_prints = True,
      guarded = False\<rparr>"
  by code_simp

lemma svd_cell_31_summary:
  "summary svd_cell_31 =
     \<lparr>free = [''U'', ''Tk''],
      bound = [''B''],
      calls = [],
      prints = 0,
      last_prints = False,
      guarded = False\<rparr>"
  by code_simp

lemma svd_cell_33_summary:
  "summary svd_cell_33 =
     \<lparr>free = [''U''],
      bound = [''T''],
      calls = [],
      prints = 0,
      last_prints = False,
      guarded = False\<rparr>"
  by code_simp

lemma svd_cell_35_summary:
  "summary svd_cell_35 =
     \<lparr>free = [''V'', ''Tk''],
      bound = [''T''],
      calls = [],
      prints = 0,
      last_prints = False,
      guarded = False\<rparr>"
  by code_simp

lemma svd_cell_37_summary:
  "summary svd_cell_37 =
     \<lparr>free = [],
      bound = [''array'', ''diag'', ''zeros'', ''svd'', ''A'', ''U'', ''s'', ''VT'',
        ''Sigma'', ''n_elements'', ''Sigma'', ''VT'', ''B'', ''T'', ''T''],
      calls = [''array'', ''svd'', ''zeros'', ''diag'', ''dot'', ''dot'', ''dot'',
        ''dot''],
      prints = 4,
      last_prints = True,
      guarded = False\<rparr>"
  by code_simp

lemma svd_cell_39_summary:
  "summary svd_cell_39 =
     \<lparr>free = [],
      bound = [''array'', ''TruncatedSVD'', ''A'', ''svd'', ''result''],
      calls = [''array'', ''TruncatedSVD'', ''fit'', ''transform''],
      prints = 2,
      last_prints = True,
      guarded = False\<rparr>"
  by code_simp

lemma tensor_cell_3_summary:
  "summary tensor_cell_3 =
     \<lparr>free = [''t111'', ''t121'', ''t131'', ''t112'', ''t122'', ''t132'', ''t113'',
        ''t123'', ''t133'', ''t211'', ''t221'', ''t231'', ''t212'', ''t222'',
        ''t232'', ''t213'', ''t223'', ''t233'', ''t311'', ''t321'', ''t331'',
        ''t312'', ''t322'', ''t332'', ''t313'', ''t323'', ''t333''],
      bound = [''T''],
      calls = [],
      prints = 0,
      last_prints = False,
      guarded = False\<rparr>"
  by code_simp

lemma tensor_cell_5_summary:
  "summary tensor_cell_5 =
     \<lparr>free = [],
      bound = [''array'', ''T''],
      calls = [''array''],
      prints = 2,
      last_prints = True,
      guarded = False\<rparr>"
  by code_simp

lemma tensor_cell_7_summary:
  "summary tensor_cell_7 =
     \<lparr>free = [''a111'', ''a121'', ''a131'', ''a112'', ''a122'', ''a132'', ''a211'',
        ''a221'', ''a231'', ''a112'', ''a122'', ''a132'', ''b111'', ''b121'',
        ''t131'', ''b112'', ''b122'', ''b132'', ''b211'', ''t221'', ''t231'',
        ''b112'', ''b122'', ''b132'', ''a111'', ''b111'', ''a121'', ''b121'',
        ''a131'', ''b131'', ''a112'', ''b112'', ''a122'', ''b122'', ''a132'',
        ''b132'', ''a211'', ''b211'', ''a221'', ''b221'', ''a231'', ''b231'',
        ''a112'', ''b112'', ''a122'', ''b122'', ''a132'', ''b132''],
      bound = [''A'', ''B'', ''C'', ''C''],
      calls = [],
      prints = 0,
      last_prints = False,
      guarded = False\<rparr>"
  by code_simp

lemma tensor_cell_9_summary:
  "summary tensor_cell_9 =
     \<lparr>free = [],
      bound = [''array'', ''A'', ''B'', ''C''],
      calls = [''array'', ''array''],
      prints = 1,
      last_prints = True,
      guarded = False\<rparr>"
  by code_simp

lemma tensor_cell_11_summary:
  "summary tensor_cell_11 =
     \<lparr>free = [''a111'', ''a121'', ''a131'', ''a112'', ''a122'', ''a132'', ''a211'',
        ''a221'', ''a231'', ''a112'', ''a122'', ''a132'', ''b111'', ''b121'',
        ''t131'', ''b112'', ''b122'', ''b132'', ''b211'', ''t221'', ''t231'',
        ''b112'', ''b122'', ''b132'', ''a111'', ''b111'', ''a121'', ''b121'',
        ''a131'', ''b131'', ''a112'', ''b112'', ''a122'', ''b122'', ''a132'',
        ''b132'', ''a211'', ''b211'', ''a221'', ''b221'', ''a231'', ''b231'',
        ''a112'', ''b112'', ''a122'', ''b122'', ''a132'', ''b132''],
      bound = [''A'', ''B'', ''C'', ''C''],
      calls = [],
      prints = 0,
      last_prints = False,
      guarded = False\<rparr>"
  by code_simp

lemma tensor_cell_13_summary:
  "summary tensor_cell_13 =
     \<lparr>free = [],
      bound = [''array'', ''A'', ''B'', ''C''],
      calls = [''array'', ''array''],
      prints = 1,
      last_prints = True,
      guarded = False\<rparr>"
  by code_simp

lemma tensor_cell_15_summary:
  "summary tensor_cell_15 =
     \<lparr>free = [''a111'', ''a121'', ''a131'', ''a112'', ''a122'', ''a132'', ''a211'',
        ''a221'', ''a231'', ''a112'', ''a122'', ''a132'', ''b111'', ''b121'',
        ''t131'', ''b112'', ''b122'', ''b132'', ''b211'', ''t221'', ''t231'',
        ''b112'', ''b122'', ''b132'', ''o'', ''a111'', ''b111'', ''a121'', ''b121'',
        ''a131'', ''b131'', ''a112'', ''b112'', ''a122'', ''b122'', ''a132'',
        ''b132'', ''a211'', ''b211'', ''a221'', ''b221'', ''a231'', ''b231'',
        ''a112'', ''b112'', ''a122'', ''b122'', ''a132'', ''b132''],
      bound = [''A'', ''B'', ''C'', ''C''],
      calls = [],
      prints = 0,
      last_prints = False,
      guarded = False\<rparr>"
  by code_simp

lemma tensor_cell_17_summary:
  "summary tensor_cell_17 =
     \<lparr>free = [],
      bound = [''array'', ''A'', ''B'', ''C''],
      calls = [''array'', ''array''],
      prints = 1,
      last_prints = True,
      guarded = False\<rparr>"
  by code_simp

lemma tensor_cell_19_summary:
  "summary tensor_cell_19 =
     \<lparr>free = [''a111'', ''a121'', ''a131'', ''a112'', ''a122'', ''a132'', ''a211'',
        ''a221'', ''a231'', ''a112'', ''a122'', ''a132'', ''b111'', ''b121'',
        ''t131'', ''b112'', ''b122'', ''b132'', ''b211'', ''t221'', ''t231'',
        ''b112'', ''b122'', ''b132'', ''a111'', ''b111'', ''a121'', ''b121'',
        ''a131'', ''b131'', ''a112'', ''b112'', ''a122'', ''b122'', ''a132'',
        ''b132'', ''a211'', ''b211'', ''a221'', ''b221'', ''a231'', ''b231'',
        ''a112'', ''b112'', ''a122'', ''b122'', ''a132'', ''b132''],
      bound = [''A'', ''B'', ''C'', ''C''],
      calls = [],
      prints = 0,
      last_prints = False,
      guarded = False\<rparr>"
  by code_simp

lemma tensor_cell_21_summary:
  "summary tensor_cell_21 =
     \<lparr>free = [],
      bound = [''array'', ''A'', ''B'', ''C''],
      calls = [''array'', ''array''],
      prints = 1,
      last_prints = True,
      guarded = False\<rparr>"
  by code_simp

lemma tensor_cell_23_summary:
  "summary tensor_cell_23 =
     \<lparr>free = [''a1'', ''a2'', ''b1'', ''b2'', ''x'', ''a1'', ''b1'', ''b2'', ''a2'',
        ''b1'', ''b2''],
      bound = [''a'', ''b'', ''c'', ''c''],
      calls = [''a''],
      prints = 0,
      last_prints = False,
      guarded = False\<rparr>"
  by code_simp

lemma tensor_cell_25_summary:
  "summary tensor_cell_25 =
     \<lparr>free = [''a1'', ''b1'', ''a1'', ''b2'', ''a2'', ''b1'', ''a2'', ''b2''],
      bound = [''c''],
      calls = [],
      prints = 0,
      last_prints = False,
      guarded = False\<rparr>"
  by code_simp

lemma tensor_cell_27_summary:
  "summary tensor_cell_27 =
     \<lparr>free = [''a11'', ''a12'', ''a21'', ''a22'', ''b11'', ''b12'', ''b21'', ''b22'',
        ''x'', ''b11'', ''b12'', ''b11'', ''b12'', ''a11'', ''b21'', ''b22'', ''a12'',
        ''b21'', ''b22'', ''b11'', ''b12'', ''b11'', ''b12'', ''a21'', ''b21'',
        ''b22'', ''a22'', ''b21'', ''b22''],
      bound = [''A'', ''B'', ''C'', ''C''],
      calls = [''A''],
      prints = 0,
      last_prints = False,
      guarded = False\<rparr>"
  by code_simp

lemma tensor_cell_29_summary:
  "summary tensor_cell_29 =
     \<lparr>free = [''a11'', ''b11'', ''a11'', ''b12'', ''a12'', ''b11'', ''a12'', ''b12'',
        ''a11'', ''b21'', ''a11'', ''b22'', ''a12'', ''b21'', ''a12'', ''b22'',
        ''a21'', ''b11'', ''a21'', ''b12'', ''a22'', ''b11'', ''a22'', ''b12'',
        ''a21'', ''b21'', ''a21'', ''b22'', ''a22'', ''b21'', ''a22'', ''b22''],
      bound = [''C''],
      calls = [],
      prints = 0,
      last_prints = False,
      guarded = False\<rparr>"
  by code_simp

lemma tensor_cell_31_summary:
  "summary tensor_cell_31 =
     \<lparr>free = [],
      bound = [''array'', ''tensordot'', ''A'', ''B'', ''C''],
      calls = [''array'', ''array'', ''tensordot''],
      prints = 1,
      last_prints = True,
      guarded = False\<rparr>"
  by code_simp

lemma tuning_cell_1_summary:
  "summary tuning_cell_1 =
     \<lparr>free = [],
      bound = [''np'', ''datasets'', ''Ridge'', ''GridSearchCV'', ''dataset'',
        ''alphas'', ''model'', ''grid''],
      calls = [''load_diabetes'', ''array'', ''Ridge'', ''GridSearchCV'', ''dict'',
        ''fit''],
      prints = 3,
      last_prints = True,
      guarded = False\<rparr>"
  by code_simp

lemma tuning_cell_3_summary:
  "summary tuning_cell_3 =
     \<lparr>free = [],
      bound = [''np'', ''sp_rand'', ''datasets'', ''Ridge'', ''RandomizedSearchCV'',
        ''dataset'', ''param_grid'', ''model'', ''rsearch''],
      calls = [''load_diabetes'', ''sp_rand'', ''Ridge'', ''RandomizedSearchCV'',
        ''fit''],
      prints = 3,
      last_prints = True,
      guarded = False\<rparr>"
  by code_simp

lemma cnn_cell_3_summary:
  "summary cnn_cell_3 =
     \<lparr>free = [''Sequential'', ''Conv2D'', ''MaxPooling2D'', ''Flatten''],
      bound = [''cnn''],
      calls = [''Sequential'', ''add'', ''Conv2D'', ''add'', ''MaxPooling2D'',
        ''add'', ''Flatten''],
      prints = 0,
      last_prints = False,
      guarded = False\<rparr>"
  by code_simp

lemma cnn_cell_5_summary:
  "summary cnn_cell_5 =
     \<lparr>free = [''model'', ''TimeDistributed'', ''model'', ''LSTM'', ''model'',
        ''Dense''],
      bound = [],
      calls = [''add'', ''TimeDistributed'', ''add'', ''LSTM'', ''add'', ''Dense''],
      prints = 0,
      last_prints = False,
      guarded = False\<rparr>"
  by code_simp

lemma cnn_cell_7_summary:
  "summary cnn_cell_7 =
     \<lparr>free = [''Sequential'', ''Conv2D'', ''MaxPooling2D'', ''Flatten'',
        ''Sequential'', ''TimeDistributed'', ''LSTM'', ''Dense''],
      bound = [''cnn'', ''model''],
      calls = [''Sequential'', ''add'', ''Conv2D'', ''add'', ''MaxPooling2D'',
        ''add'', ''Flatten'', ''Sequential'', ''add'', ''TimeDistributed'', ''add'',
        ''LSTM'', ''add'', ''Dense''],
      prints = 0,
      last_prints = False,
      guarded = False\<rparr>"
  by code_simp

lemma cnn_cell_9_summary:
  "summary cnn_cell_9 =
     \<lparr>free = [''Sequential'', ''TimeDistributed'', ''Conv2D'', ''TimeDistributed'',
        ''MaxPooling2D'', ''TimeDistributed'', ''Flatten'', ''LSTM'', ''Dense''],
      bound = [''model''],
      calls = [''Sequential'', ''add'', ''TimeDistributed'', ''Conv2D'', ''add'',
        ''TimeDistributed'', ''MaxPooling2D'', ''add'', ''TimeDistributed'',
        ''Flatten'', ''add'', ''LSTM'', ''add'', ''Dense''],
      prints = 0,
      last_prints = False,
      guarded = False\<rparr>"
  by code_simp

lemmas cell_summaries =
  svd_cell_3_summary svd_cell_6_summary svd_cell_8_summary svd_cell_10_summary
  svd_cell_12_summary svd_cell_14_summary svd_cell_16_summary svd_cell_18_summary
  svd_cell_20_summary svd_cell_22_summary svd_cell_23_summary svd_cell_25_summary
  svd_cell_27_summary svd_cell_29_summary svd_cell_31_summary svd_cell_33_summary
  svd_cell_35_summary svd_cell_37_summary svd_cell_39_summary tensor_cell_3_summary
  tensor_cell_5_summary tensor_cell_7_summary tensor_cell_9_summary
  tensor_cell_11_summary tensor_cell_13_summary tensor_cell_15_summary
  tensor_cell_17_summary tensor_cell_19_summary tensor_cell_21_summary
  tensor_cell_23_summary tensor_cell_25_summary tensor_cell_27_summary
  tensor_cell_29_summary tensor_cell_31_summary tuning_cell_1_summary
  tuning_cell_3_summary cnn_cell_3_summary cnn_cell_5_summary cnn_cell_7_summary
  cnn_cell_9_summary

lemma svd_cell_3_executed: "\<not> executed svd_cell_3"
  by (simp add: executed_def svd_cell_3_def)

lemma svd_cell_6_executed: "executed svd_cell_6"
  by (simp add: executed_def svd_cell_6_def)

lemma svd_cell_8_executed: "\<not> executed svd_cell_8"
  by (simp add: executed_def svd_cell_8_def)

lemma svd_cell_10_executed: "\<not> executed svd_cell_10"
  by (simp add: executed_def svd_cell_10_def)

lemma svd_cell_12_executed: "executed svd_cell_12"
  by (simp add: executed_def svd_cell_12_def)

lemma svd_cell_14_executed: "executed svd_cell_14"
  by (simp add: executed_def svd_cell_14_def)

lemma svd_cell_16_executed: "\<not> executed svd_cell_16"
  by (simp add: executed_def svd_cell_16_def)

lemma svd_cell_18_executed: "\<not> executed svd_cell_18"
  by (simp add: executed_def svd_cell_18_def)

lemma svd_cell_20_executed: "\<not> executed svd_cell_20"
  by (simp add: executed_def svd_cell_20_def)

lemma svd_cell_22_executed: "\<not> executed svd_cell_22"
  by (simp add: executed_def svd_cell_22_def)

lemma svd_cell_23_executed: "\<not> executed svd_cell_23"
  by (simp add: executed_def svd_cell_23_def)

lemma svd_cell_25_executed: "executed svd_cell_25"
  by (simp add: executed_def svd_cell_25_def)

lemma svd_cell_27_executed: "\<not> executed svd_cell_27"
  by (simp add: executed_def svd_cell_27_def)

lemma svd_cell_29_executed: "executed svd_cell_29"
  by (simp add: executed_def svd_cell_29_def)

lemma svd_cell_31_executed: "\<not> executed svd_cell_31"
  by (simp add: executed_def svd_cell_31_def)

lemma svd_cell_33_executed: "\<not> executed svd_cell_33"
  by (simp add: executed_def svd_cell_33_def)

lemma svd_cell_35_executed: "\<not> executed svd_cell_35"
  by (simp add: executed_def svd_cell_35_def)

lemma svd_cell_37_executed: "executed svd_cell_37"
  by (simp add: executed_def svd_cell_37_def)

lemma svd_cell_39_executed: "executed svd_cell_39"
  by (simp add: executed_def svd_cell_39_def)

lemma tensor_cell_3_executed: "\<not> executed tensor_cell_3"
  by (simp add: executed_def tensor_cell_3_def)

lemma tensor_cell_5_executed: "executed tensor_cell_5"
  by (simp add: executed_def tensor_cell_5_def)

lemma tensor_cell_7_executed: "\<not> executed tensor_cell_7"
  by (simp add: executed_def tensor_cell_7_def)

lemma tensor_cell_9_executed: "executed tensor_cell_9"
  by (simp add: executed_def tensor_cell_9_def)

lemma tensor_cell_11_executed: "\<not> executed tensor_cell_11"
  by (simp add: executed_def tensor_cell_11_def)

lemma tensor_cell_13_executed: "executed tensor_cell_13"
  by (simp add: executed_def tensor_cell_13_def)

lemma tensor_cell_15_executed: "\<not> executed tensor_cell_15"
  by (simp add: executed_def tensor_cell_15_def)

lemma tensor_cell_17_executed: "executed tensor_cell_17"
  by (simp add: executed_def tensor_cell_17_def)

lemma tensor_cell_19_executed: "\<not> executed tensor_cell_19"
  by (simp add: executed_def tensor_cell_19_def)

lemma tensor_cell_21_executed: "executed tensor_cell_21"
  by (simp add: executed_def tensor_cell_21_def)

lemma tensor_cell_23_executed: "\<not> executed tensor_cell_23"
  by (simp add: executed_def tensor_cell_23_def)

lemma tensor_cell_25_executed: "\<not> executed tensor_cell_25"
  by (simp add: executed_def tensor_cell_25_def)

lemma tensor_cell_27_executed: "\<not> executed tensor_cell_27"
  by (simp add: executed_def tensor_cell_27_def)

lemma tensor_cell_29_executed: "\<not> executed tensor_cell_29"
  by (simp add: executed_def tensor_cell_29_def)

lemma tensor_cell_31_executed: "executed tensor_cell_31"
  by (simp add: executed_def tensor_cell_31_def)

lemma tuning_cell_1_executed: "executed tuning_cell_1"
  by (simp add: executed_def tuning_cell_1_def)

lemma tuning_cell_3_executed: "executed tuning_cell_3"
  by (simp add: executed_def tuning_cell_3_def)

lemma cnn_cell_3_executed: "\<not> executed cnn_cell_3"
  by (simp add: executed_def cnn_cell_3_def)

lemma cnn_cell_5_executed: "\<not> executed cnn_cell_5"
  by (simp add: executed_def cnn_cell_5_def)

lemma cnn_cell_7_executed: "\<not> executed cnn_cell_7"
  by (simp add: executed_def cnn_cell_7_def)

lemma cnn_cell_9_executed: "\<not> executed cnn_cell_9"
  by (simp add: executed_def cnn_cell_9_def)

lemmas cells_executed =
  svd_cell_3_executed svd_cell_6_executed svd_cell_8_executed svd_cell_10_executed
  svd_cell_12_executed svd_cell_14_executed svd_cell_16_executed svd_cell_18_executed
  svd_cell_20_executed svd_cell_22_executed svd_cell_23_executed svd_cell_25_executed
  svd_cell_27_executed svd_cell_29_executed svd_cell_31_executed svd_cell_33_executed
  svd_cell_35_executed svd_cell_37_executed svd_cell_39_executed tensor_cell_3_executed
  tensor_cell_5_executed tensor_cell_7_executed tensor_cell_9_executed
  tensor_cell_11_executed tensor_cell_13_executed tensor_cell_15_executed
  tensor_cell_17_executed tensor_cell_19_executed tensor_cell_21_executed
  tensor_cell_23_executed tensor_cell_25_executed tensor_cell_27_executed
  tensor_cell_29_executed tensor_cell_31_executed tuning_cell_1_executed
  tuning_cell_3_executed cnn_cell_3_executed cnn_cell_5_executed cnn_cell_7_executed
  cnn_cell_9_executed

section \<open>Cells without free names\<close>

lemma summary_free: "cell_free_names c = free (summary c)"
  by (simp add: summary_def summarise_def summarise_names_def cell_free_names_def cell_names_def)

lemma summary_bound: "cell_binds c = bound (summary c)"
  by (simp add: summary_def summarise_def summarise_names_def cell_binds_def cell_names_def)

lemma summary_calls: "library_calls c = calls (summary c)"
  by (simp add: summary_def summarise_def summarise_names_def library_calls_def)

lemma summary_prints: "print_count c = prints (summary c)"
  by (simp add: summary_def summarise_def summarise_names_def print_count_def)

lemma summary_last_prints: "ends_with_print c = last_prints (summary c)"
  by (simp add: summary_def summarise_def summarise_names_def ends_with_print_def)

lemma summary_guarded: "handles_failure c = guarded (summary c)"
  by (simp add: summary_def summarise_def summarise_names_def handles_failure_def)

lemma resolve_closed:
  assumes "free_names own ss = []" and "\<forall>b \<in> set builtins. \<not> env b"
  shows "resolve env own ss = resolve fresh own ss \<and> self_contained (resolve env own ss)"
  using assms(1)
proof (induction ss arbitrary: own)
  case Nil
  show ?case by (simp add: self_contained_def)
next
  case (Cons s ss)
  from Cons.prems have here: "\<forall>x \<in> set (reads s). x \<in> set own \<or> x \<in> set builtins"
    and rest: "free_names (binds s @ own) ss = []"
    by (auto simp: filter_empty_conv)
  have look: "\<forall>x \<in> set (reads s).
      lookup env own x = lookup fresh own x \<and>
      (lookup env own x = Some Own \<or> lookup env own x = Some Builtin)"
    using here assms(2) by (auto simp: lookup_def fresh_def)
  have "map (\<lambda>x. (x, lookup env own x)) (reads s) = map (\<lambda>x. (x, lookup fresh own x)) (reads s)"
    using look by simp
  moreover have "self_contained (map (\<lambda>x. (x, lookup env own x)) (reads s))"
    using look by (auto simp: self_contained_def)
  ultimately show ?case
    using Cons.IH[OF rest] by (auto simp: self_contained_def)
qed

lemma until_unbound_self_contained:
  "self_contained trace \<Longrightarrow> until_unbound trace = trace"
  by (induction trace rule: until_unbound.induct) (auto simp: self_contained_def)

lemma name_trace_closed:
  assumes "cell_free_names c = []" and "\<forall>b \<in> set builtins. \<not> env b"
  shows "name_trace env c = name_trace fresh c \<and> self_contained (name_trace env c)"
proof -
  have f: "free_names [] (cell_names c) = []" using assms(1) by (simp add: cell_free_names_def)
  have e: "resolve env [] (cell_names c) = resolve fresh [] (cell_names c)"
    and s: "self_contained (resolve env [] (cell_names c))"
    using resolve_closed[OF f assms(2)] by blast+
  show ?thesis
    using e s by (simp add: name_trace_def until_unbound_self_contained)
qed


section \<open>Cell lengths\<close>

lemmas notebook_defs = all_code_cells_def svd_notebook_def tensor_notebook_def
  tuning_notebook_def cnn_notebook_def

lemmas short_cell_defs =
  svd_cell_3_def svd_cell_6_def svd_cell_8_def svd_cell_10_def svd_cell_12_def
  svd_cell_14_def svd_cell_16_def svd_cell_18_def svd_cell_20_def svd_cell_22_def
  svd_cell_23_def svd_cell_25_def svd_cell_27_def svd_cell_31_def svd_cell_33_def
  svd_cell_35_def svd_cell_39_def tensor_cell_3_def tensor_cell_5_def tensor_cell_7_def
  tensor_cell_9_def tensor_cell_11_def tensor_cell_13_def tensor_cell_15_def
  tensor_cell_17_def tensor_cell_19_def tensor_cell_21_def tensor_cell_23_def
  tensor_cell_25_def tensor_cell_27_def tensor_cell_29_def tensor_cell_31_def
  tuning_cell_1_def tuning_cell_3_def cnn_cell_3_def cnn_cell_5_def cnn_cell_7_def
  cnn_cell_9_def

lemma svd_cell_12_listed: "svd_cell_12 \<in> set all_code_cells"
  by (simp add: notebook_defs)

lemma svd_cell_29_listed: "svd_cell_29 \<in> set all_code_cells"
  by (simp add: notebook_defs)

lemma svd_cell_37_listed: "svd_cell_37 \<in> set all_code_cells"
  by (simp add: notebook_defs)

text \<open>
  C8 as stated: every code cell of the repository is fewer than 20 lines long. It fails:
  the dimensionality-reduction cell of the SVD notebook (\<open>svd_cell_37\<close>) has 28 source
  lines.
\<close>

theorem C8_counterexample:
  "\<not> (\<forall>c \<in> set all_code_cells. line_count c < 20)"
proof
  assume "\<forall>c \<in> set all_code_cells. line_count c < 20"
  then have "line_count svd_cell_37 < 20"
    using svd_cell_37_listed by blast
  then show False
    by (simp add: line_count_def svd_cell_37_def)
qed

text \<open>
  C8, amended: every code cell has at most 28 source lines, and every code cell is
  fewer than 20 lines long except two cells of the SVD notebook, the pseudoinverse
  computed through the SVD (\<open>svd_cell_29\<close>, 23 lines) and the dimensionality reduction
  (\<open>svd_cell_37\<close>, 28 lines).
\<close>

theorem C8_cell_length:
  "line_count svd_cell_29 = 23 \<and> line_count svd_cell_37 = 28 \<and>
   (\<forall>c \<in> set all_code_cells.
      line_count c \<le> 28 \<and> (line_count c < 20 \<or> c = svd_cell_29 \<or> c = svd_cell_37))"
proof (intro conjI)
  show "line_count svd_cell_29 = 23"
    by (simp add: line_count_def svd_cell_29_def)
  show "line_count svd_cell_37 = 28"
    by (simp add: line_count_def svd_cell_37_def)
  show "\<forall>c \<in> set all_code_cells.
      line_count c \<le> 28 \<and> (line_count c < 20 \<or> c = svd_cell_29 \<or> c = svd_cell_37)"
    unfolding notebook_defs line_count_def
    apply simp
    apply (simp add: short_cell_defs)
    apply (simp add: svd_cell_29_def svd_cell_37_def)
    done
qed

text \<open>
  The amended C8 at one cell: the rectangular reconstruction cell (\<open>svd_cell_12\<close>) is a
  code cell of the repository, is neither of the two long cells, and has 18 lines.
\<close>

theorem C8_cell_length_witness:
  "svd_cell_12 \<in> set all_code_cells \<and> line_count svd_cell_12 \<le> 28 \<and>
   line_count svd_cell_12 < 20"
proof -
  have "line_count svd_cell_12 \<le> 28 \<and>
        (line_count svd_cell_12 < 20 \<or> svd_cell_12 = svd_cell_29 \<or> svd_cell_12 = svd_cell_37)"
    using C8_cell_length svd_cell_12_listed by blast
  moreover have "line_count svd_cell_12 < 20"
    by (simp add: line_count_def svd_cell_12_def)
  ultimately show ?thesis
    using svd_cell_12_listed by simp
qed


lemma executed_cells_closed:
  "\<forall>c \<in> set all_code_cells. executed c \<longrightarrow> cell_free_names c = []"
  by (simp add: notebook_defs cells_executed summary_free cell_summaries)

lemma no_cell_binds_builtin:
  "\<forall>c \<in> set all_code_cells. \<forall>b \<in> set builtins. b \<notin> set (cell_binds c)"
  by (simp add: notebook_defs summary_bound cell_summaries builtins_def)

lemma left_by_cells_builtins:
  assumes "left_by_cells env"
  shows "\<forall>b \<in> set builtins. \<not> env b"
proof
  fix b assume b: "b \<in> set builtins"
  show "\<not> env b"
  proof
    assume "env b"
    then obtain c where "c \<in> set all_code_cells" "b \<in> set (cell_binds c)"
      using assms by (auto simp: left_by_cells_def)
    then show False using no_cell_binds_builtin b by blast
  qed
qed

lemma tuning_cell_1_listed: "tuning_cell_1 \<in> set all_code_cells"
  by (simp add: notebook_defs)

lemma cnn_cell_5_listed: "cnn_cell_5 \<in> set all_code_cells"
  by (simp add: notebook_defs)

lemma left_by_tuning_cell_1: "left_by_cells (\<lambda>x. x \<in> set (cell_binds tuning_cell_1))"
  unfolding left_by_cells_def using tuning_cell_1_listed by blast

section \<open>Standalone cells\<close>

text \<open>
  C4 as stated: every code cell is standalone; no cell reads a variable bound by a
  different cell or a different notebook. It fails: the LSTM snippet of the CNN-LSTM
  notebook (\<open>cnn_cell_5\<close>, \<open>model.add(TimeDistributed(...))\<close>) reads \<open>model\<close>
  without binding it, and the grid-search cell of the tuning notebook
  (\<open>tuning_cell_1\<close>, \<open>model = Ridge()\<close>) binds that name.
\<close>

theorem C4_counterexample:
  "\<not> (\<forall>c \<in> set all_code_cells. \<forall>c' \<in> set all_code_cells.
        c' \<noteq> c \<longrightarrow> set (cell_free_names c) \<inter> set (cell_binds c') = {})"
proof
  assume a: "\<forall>c \<in> set all_code_cells. \<forall>c' \<in> set all_code_cells.
        c' \<noteq> c \<longrightarrow> set (cell_free_names c) \<inter> set (cell_binds c') = {}"
  have "tuning_cell_1 \<noteq> cnn_cell_5"
    by (simp add: tuning_cell_1_def cnn_cell_5_def)
  then have "set (cell_free_names cnn_cell_5) \<inter> set (cell_binds tuning_cell_1) = {}"
    using a cnn_cell_5_listed tuning_cell_1_listed by blast
  moreover have "''model'' \<in> set (cell_free_names cnn_cell_5)"
    by (simp add: summary_free cnn_cell_5_summary)
  moreover have "''model'' \<in> set (cell_binds tuning_cell_1)"
    by (simp add: summary_bound tuning_cell_1_summary)
  ultimately show False by blast
qed

text \<open>
  C4, amended: every code cell that was run (every cell with an execution count) is
  standalone in its names. It has no free name: each name it reads is a builtin or is
  bound by an earlier statement of the same cell. So in any kernel whose namespace holds
  only names that cells of the repository bind, the cell resolves every name exactly as
  in a fresh kernel, each to a binding of its own or to a builtin, never to a binding
  left by another cell. (The cells that were never run, the formula transcriptions and
  the Keras sketches, read names they do not bind.)
\<close>

theorem C4_executed_cells_standalone:
  "\<forall>c \<in> set all_code_cells. executed c \<longrightarrow>
     cell_free_names c = [] \<and>
     (\<forall>env. left_by_cells env \<longrightarrow>
        name_trace env c = name_trace fresh c \<and> self_contained (name_trace env c))"
proof (intro ballI impI conjI allI)
  fix c assume c: "c \<in> set all_code_cells" "executed c"
  then show closed: "cell_free_names c = []"
    using executed_cells_closed by blast
  fix env assume env: "left_by_cells env"
  show "name_trace env c = name_trace fresh c"
    using name_trace_closed[OF closed left_by_cells_builtins[OF env]] by blast
  show "self_contained (name_trace env c)"
    using name_trace_closed[OF closed left_by_cells_builtins[OF env]] by blast
qed

text \<open>
  The amended C4 at one cell and one kernel: the rectangular reconstruction cell
  (\<open>svd_cell_12\<close>) was run, and in the kernel that the grid-search cell leaves behind
  (with \<open>np\<close>, \<open>model\<close>, \<open>grid\<close> and the rest bound) it resolves its names as
  in a fresh kernel.
\<close>

theorem C4_executed_cells_standalone_witness:
  "svd_cell_12 \<in> set all_code_cells \<and> executed svd_cell_12 \<and>
   left_by_cells (\<lambda>x. x \<in> set (cell_binds tuning_cell_1)) \<and>
   cell_free_names svd_cell_12 = [] \<and>
   name_trace (\<lambda>x. x \<in> set (cell_binds tuning_cell_1)) svd_cell_12 = name_trace fresh svd_cell_12"
  using C4_executed_cells_standalone svd_cell_12_listed svd_cell_12_executed
    left_by_tuning_cell_1
  by blast


lemma tensor_cell_5_listed: "tensor_cell_5 \<in> set all_code_cells"
  by (simp add: notebook_defs)

section \<open>Library calls and prints per cell\<close>

text \<open>
  C9 as stated: every executable section performs exactly one library call and then
  prints its result. It fails already on the cells that were run: the cell that computes
  the pseudoinverse through the SVD (\<open>svd_cell_29\<close>) makes six library calls
  (\<open>array\<close>, \<open>svd\<close>, \<open>zeros\<close>, \<open>diag\<close> and \<open>dot\<close> twice) and prints twice.
\<close>

theorem C9_counterexample:
  "\<not> (\<forall>c \<in> set all_code_cells. executed c \<longrightarrow>
        length (library_calls c) = 1 \<and> print_count c = 1 \<and> ends_with_print c)"
proof
  assume "\<forall>c \<in> set all_code_cells. executed c \<longrightarrow>
        length (library_calls c) = 1 \<and> print_count c = 1 \<and> ends_with_print c"
  then have "length (library_calls svd_cell_29) = 1"
    using svd_cell_29_listed svd_cell_29_executed by blast
  then show False
    by (simp add: summary_calls svd_cell_29_summary)
qed

text \<open>
  C9, amended: every code cell that was run makes at least one call (between one and
  eight, \<open>print\<close> not counted), prints between one and four times, and its last
  statement is a print.
\<close>

theorem C9_calls_then_print:
  "\<forall>c \<in> set all_code_cells. executed c \<longrightarrow>
     1 \<le> length (library_calls c) \<and> length (library_calls c) \<le> 8 \<and>
     1 \<le> print_count c \<and> print_count c \<le> 4 \<and> ends_with_print c"
  by (simp add: notebook_defs cells_executed summary_calls summary_prints
      summary_last_prints cell_summaries)

text \<open>
  The amended C9 at one cell: the cell that creates a tensor (\<open>tensor_cell_5\<close>) was
  run, makes the one call \<open>array\<close>, prints twice and ends with a print.
\<close>

theorem C9_calls_then_print_witness:
  "tensor_cell_5 \<in> set all_code_cells \<and> executed tensor_cell_5 \<and>
   library_calls tensor_cell_5 = [''array''] \<and> print_count tensor_cell_5 = 2 \<and>
   ends_with_print tensor_cell_5"
proof -
  have "1 \<le> length (library_calls tensor_cell_5) \<and> ends_with_print tensor_cell_5"
    using C9_calls_then_print tensor_cell_5_listed tensor_cell_5_executed by blast
  moreover have "library_calls tensor_cell_5 = [''array'']"
    by (simp add: summary_calls tensor_cell_5_summary)
  moreover have "print_count tensor_cell_5 = 2"
    by (simp add: summary_prints tensor_cell_5_summary)
  ultimately show ?thesis
    using tensor_cell_5_listed tensor_cell_5_executed by simp
qed


section \<open>Shapes and entries of arrays\<close>

text \<open>
  Two arrays of one shape are equal when their entries are; the entry of a product is
  the sum of products along a row and a column. Associativity and the transpose of a
  product follow.
\<close>

lemma nrows_tabulate [simp]: "nrows (tabulate m n f) = m"
  by (simp add: tabulate_def)

lemma ncols_tabulate [simp]: "ncols (tabulate m n f) = n"
  by (simp add: tabulate_def)

lemma is_array_tabulate [simp]: "is_array (tabulate m n f)"
  by (auto simp: tabulate_def is_array_def)

lemma entry_tabulate [simp]: "i < m \<Longrightarrow> j < n \<Longrightarrow> entry (tabulate m n f) i j = f i j"
  by (simp add: tabulate_def entry_def)

lemma tabulate_cong:
  assumes "\<And>i j. i < m \<Longrightarrow> j < n \<Longrightarrow> f i j = g i j"
  shows "tabulate m n f = tabulate m n g"
  using assms by (simp add: tabulate_def)

lemma array_eqI:
  assumes "is_array A" "is_array B" "nrows A = nrows B" "ncols A = ncols B"
    and "\<And>i j. i < nrows A \<Longrightarrow> j < ncols A \<Longrightarrow> entry A i j = entry B i j"
  shows "A = B"
proof -
  have "rows A = rows B"
  proof (rule nth_equalityI)
    show "length (rows A) = length (rows B)"
      using assms(1-3) by (simp add: is_array_def)
  next
    fix i assume i: "i < length (rows A)"
    then have ia: "i < nrows A" and ib: "i < length (rows B)"
      using assms(1-3) by (simp_all add: is_array_def)
    have la: "length (rows A ! i) = ncols A"
      using assms(1) i by (simp add: is_array_def)
    have lb: "length (rows B ! i) = ncols A"
      using assms(2,4) ib by (simp add: is_array_def)
    show "rows A ! i = rows B ! i"
    proof (rule nth_equalityI)
      show "length (rows A ! i) = length (rows B ! i)" by (simp add: la lb)
    next
      fix j assume "j < length (rows A ! i)"
      then have "j < ncols A" by (simp add: la)
      then show "rows A ! i ! j = rows B ! i ! j"
        using assms(5)[OF ia] by (simp add: entry_def)
    qed
  qed
  then show ?thesis
    using assms(3,4) by (simp add: array.expand)
qed

lemma tabulate_entry: "is_array A \<Longrightarrow> tabulate (nrows A) (ncols A) (entry A) = A"
  by (rule array_eqI) simp_all

lemma nrows_array [simp]: "nrows (array xs) = length xs"
  by (simp add: array_def)

lemma nrows_tr [simp]: "nrows (tr A) = ncols A"
  by (simp add: tr_def)

lemma ncols_tr [simp]: "ncols (tr A) = nrows A"
  by (simp add: tr_def)

lemma is_array_tr [simp]: "is_array (tr A)"
  by (simp add: tr_def)

lemma entry_tr [simp]: "i < ncols A \<Longrightarrow> j < nrows A \<Longrightarrow> entry (tr A) i j = entry A j i"
  by (simp add: tr_def)

lemma tr_tr: "is_array A \<Longrightarrow> tr (tr A) = A"
  by (rule array_eqI) simp_all

lemma nrows_mul [simp]: "nrows (mat_mul A B) = nrows A"
  by (simp add: mat_mul_def)

lemma ncols_mul [simp]: "ncols (mat_mul A B) = ncols B"
  by (simp add: mat_mul_def)

lemma is_array_mul [simp]: "is_array (mat_mul A B)"
  by (simp add: mat_mul_def)

lemma total_real: "total xs = sum_list (xs :: real list)"
  by (induction xs) (simp_all add: total_def)

lemma total_upt: "total (map f [0..<n]) = (\<Sum>k<n. f k :: real)"
  by (simp add: total_real interv_sum_list_conv_sum_set_nat atLeast0LessThan)

lemma entry_mul:
  fixes A B :: matrix
  assumes "i < nrows A" "j < ncols B"
  shows "entry (mat_mul A B) i j = (\<Sum>k<ncols A. entry A i k * entry B k j)"
  using assms by (simp add: mat_mul_def total_upt)

lemma mul_assoc:
  fixes A B C :: matrix
  assumes "ncols A = nrows B" "ncols B = nrows C"
  shows "mat_mul (mat_mul A B) C = mat_mul A (mat_mul B C)"
proof (rule array_eqI)
  fix i j assume "i < nrows (mat_mul (mat_mul A B) C)" "j < ncols (mat_mul (mat_mul A B) C)"
  then have i: "i < nrows A" and j: "j < ncols C" by simp_all
  have "entry (mat_mul (mat_mul A B) C) i j
        = (\<Sum>l<nrows C. (\<Sum>k<nrows B. entry A i k * entry B k l) * entry C l j)"
    by (simp add: entry_mul i j assms)
  also have "\<dots> = (\<Sum>l<nrows C. \<Sum>k<nrows B. entry A i k * (entry B k l * entry C l j))"
    by (simp add: sum_distrib_right mult.assoc)
  also have "\<dots> = (\<Sum>k<nrows B. \<Sum>l<nrows C. entry A i k * (entry B k l * entry C l j))"
    by (rule sum.swap)
  also have "\<dots> = (\<Sum>k<nrows B. entry A i k * (\<Sum>l<nrows C. entry B k l * entry C l j))"
    by (simp add: sum_distrib_left)
  also have "\<dots> = entry (mat_mul A (mat_mul B C)) i j"
    by (simp add: entry_mul i j assms)
  finally show "entry (mat_mul (mat_mul A B) C) i j = entry (mat_mul A (mat_mul B C)) i j" .
qed simp_all

lemma tr_mul:
  fixes A B :: matrix
  assumes "ncols A = nrows B"
  shows "tr (mat_mul A B) = mat_mul (tr B) (tr A)"
proof (rule array_eqI)
  fix i j assume "i < nrows (tr (mat_mul A B))" "j < ncols (tr (mat_mul A B))"
  then have i: "i < ncols B" and j: "j < nrows A" by simp_all
  show "entry (tr (mat_mul A B)) i j = entry (mat_mul (tr B) (tr A)) i j"
    by (simp add: entry_mul i j assms mult.commute)
qed simp_all

section \<open>Diagonal and identity matrices, slices\<close>

lemma nrows_diagsvd [simp]: "nrows (diagsvd s m n) = m"
  by (simp add: diagsvd_def)

lemma ncols_diagsvd [simp]: "ncols (diagsvd s m n) = n"
  by (simp add: diagsvd_def)

lemma is_array_diagsvd [simp]: "is_array (diagsvd s m n)"
  by (simp add: diagsvd_def)

lemma entry_diagsvd [simp]:
  "i < m \<Longrightarrow> j < n \<Longrightarrow> entry (diagsvd s m n) i j = (if i = j \<and> i < length s then s ! i else 0)"
  by (simp add: diagsvd_def)


lemma nrows_diag [simp]: "nrows (diag s) = length s"
  by (simp add: diag_def)

lemma ncols_diag [simp]: "ncols (diag s) = length s"
  by (simp add: diag_def)

lemma entry_diag [simp]:
  "i < length s \<Longrightarrow> j < length s \<Longrightarrow> entry (diag s) i j = (if i = j then s ! i else 0)"
  by (simp add: diag_def)

lemma nrows_identity [simp]: "nrows (identity n) = n"
  by (simp add: identity_def)

lemma ncols_identity [simp]: "ncols (identity n) = n"
  by (simp add: identity_def)

lemma is_array_identity [simp]: "is_array (identity n)"
  by (simp add: identity_def diag_def)

lemma entry_identity [simp]:
  "i < n \<Longrightarrow> j < n \<Longrightarrow> entry (identity n) i j = (if i = j then 1 else 0)"
  by (simp add: identity_def)

lemma tr_identity: "tr (identity n) = identity n"
  by (rule array_eqI) auto

lemma sum_if_eq:
  "(i::nat) < m \<Longrightarrow> (\<Sum>k<m. if k = i then f k else (0::real)) = f i"
  by simp

lemma mul_identity_right:
  assumes "is_array A" "ncols A = n"
  shows "mat_mul A (identity n) = A"
proof (rule array_eqI)
  fix i j assume "i < nrows (mat_mul A (identity n))" "j < ncols (mat_mul A (identity n))"
  then have i: "i < nrows A" and j: "j < n" by simp_all
  have "entry (mat_mul A (identity n)) i j = (\<Sum>k<n. entry A i k * entry (identity n) k j)"
    by (simp add: entry_mul i j assms)
  also have "\<dots> = (\<Sum>k<n. if k = j then entry A i k else 0)"
    by (rule sum.cong) (simp_all add: j)
  also have "\<dots> = entry A i j" using j by simp
  finally show "entry (mat_mul A (identity n)) i j = entry A i j" .
qed (simp_all add: assms)

lemma mul_identity_left:
  assumes "is_array A" "nrows A = m"
  shows "mat_mul (identity m) A = A"
proof (rule array_eqI)
  fix i j assume "i < nrows (mat_mul (identity m) A)" "j < ncols (mat_mul (identity m) A)"
  then have i: "i < m" and j: "j < ncols A" by simp_all
  have "entry (mat_mul (identity m) A) i j = (\<Sum>k<m. entry (identity m) i k * entry A k j)"
    by (simp add: entry_mul i j)
  also have "\<dots> = (\<Sum>k<m. if k = i then entry A k j else 0)"
    by (rule sum.cong) (auto simp: i)
  also have "\<dots> = entry A i j" using i by simp
  finally show "entry (mat_mul (identity m) A) i j = entry A i j" .
qed (simp_all add: assms)

lemma nrows_zeros [simp]: "nrows (zeros m n) = m"
  by (simp add: zeros_def)

lemma ncols_zeros [simp]: "ncols (zeros m n) = n"
  by (simp add: zeros_def)

lemma is_array_zeros [simp]: "is_array (zeros m n)"
  by (simp add: zeros_def)

lemma entry_zeros [simp]: "i < m \<Longrightarrow> j < n \<Longrightarrow> entry (zeros m n) i j = 0"
  by (simp add: zeros_def)



lemma nrows_take_cols [simp]: "nrows (take_cols k A) = nrows A"
  by (simp add: take_cols_def)

lemma ncols_take_cols [simp]: "ncols (take_cols k A) = min k (ncols A)"
  by (simp add: take_cols_def)

lemma is_array_take_cols [simp]: "is_array (take_cols k A)"
  by (simp add: take_cols_def)

lemma entry_take_cols [simp]:
  "i < nrows A \<Longrightarrow> j < k \<Longrightarrow> j < ncols A \<Longrightarrow> entry (take_cols k A) i j = entry A i j"
  by (simp add: take_cols_def)

lemma nrows_take_rows [simp]: "nrows (take_rows k A) = min k (nrows A)"
  by (simp add: take_rows_def)

lemma ncols_take_rows [simp]: "ncols (take_rows k A) = ncols A"
  by (simp add: take_rows_def)

lemma is_array_take_rows [simp]: "is_array (take_rows k A)"
  by (simp add: take_rows_def)

lemma entry_take_rows [simp]:
  "i < k \<Longrightarrow> i < nrows A \<Longrightarrow> j < ncols A \<Longrightarrow> entry (take_rows k A) i j = entry A i j"
  by (simp add: take_rows_def)



lemma nrows_column [simp]: "nrows (column v) = length v"
  by (simp add: column_def)

lemma ncols_column [simp]: "ncols (column v) = 1"
  by (simp add: column_def)

lemma entry_column [simp]: "k < length v \<Longrightarrow> entry (column v) k 0 = v ! k"
  by (simp add: column_def)


section \<open>Consequences of the SVD contract\<close>

lemma and_then_Inr [simp]: "and_then (Inr x) f = f x"
  by (simp add: and_then_def)

lemma and_then_Inl [simp]: "and_then (Inl e) f = Inl e"
  by (simp add: and_then_def)

lemma orthogonalD:
  assumes "orthogonal Q"
  shows "is_array Q" "ncols Q = nrows Q" "mat_mul Q (tr Q) = identity (nrows Q)"
    "mat_mul (tr Q) Q = identity (nrows Q)"
  using assms by (simp_all add: orthogonal_def)

lemma svd_contractD:
  assumes "svd_contract A (U, s, VT)"
  shows "is_array A" "orthogonal U" "nrows U = nrows A" "orthogonal VT" "nrows VT = ncols A"
    "length s = min (nrows A) (ncols A)"
    "mat_mul (mat_mul U (diagsvd s (nrows A) (ncols A))) VT = A"
  using assms by (simp_all add: svd_contract_def)

lemma svd_product:
  assumes "svd_contract A (U, s, VT)"
  shows "mat_mul U (mat_mul (diagsvd s (nrows A) (ncols A)) VT) = A"
proof -
  note c = svd_contractD[OF assms]
  have "mat_mul (mat_mul U (diagsvd s (nrows A) (ncols A))) VT
        = mat_mul U (mat_mul (diagsvd s (nrows A) (ncols A)) VT)"
    by (rule mul_assoc) (simp_all add: orthogonalD[OF c(2)] c)
  then show ?thesis using c(7) by simp
qed

lemma svd_times_V:
  assumes "svd_contract A (U, s, VT)"
  shows "mat_mul A (tr VT) = mat_mul U (diagsvd s (nrows A) (ncols A))"
proof -
  note c = svd_contractD[OF assms]
  note oU = orthogonalD[OF c(2)] and oV = orthogonalD[OF c(4)]
  define S where "S = diagsvd s (nrows A) (ncols A)"
  have "mat_mul A (tr VT) = mat_mul (mat_mul (mat_mul U S) VT) (tr VT)"
    using c(7) by (simp add: S_def)
  also have "\<dots> = mat_mul (mat_mul U S) (mat_mul VT (tr VT))"
    by (rule mul_assoc) (simp_all add: S_def oV c)
  also have "\<dots> = mat_mul U S"
    by (simp add: oV c mul_identity_right S_def)
  finally show ?thesis by (simp add: S_def)
qed

lemma cancel_orthogonal:
  fixes X Y :: matrix
  assumes "orthogonal Q" "is_array Y" "ncols X = nrows Q" "nrows Y = nrows Q"
  shows "mat_mul (mat_mul X (tr Q)) (mat_mul Q Y) = mat_mul X Y"
    and "mat_mul (mat_mul X Q) (mat_mul (tr Q) Y) = mat_mul X Y"
proof -
  note o = orthogonalD[OF assms(1)]
  have "mat_mul (mat_mul X (tr Q)) (mat_mul Q Y) = mat_mul X (mat_mul (tr Q) (mat_mul Q Y))"
    by (rule mul_assoc) (simp_all add: assms o)
  also have "mat_mul (tr Q) (mat_mul Q Y) = mat_mul (mat_mul (tr Q) Q) Y"
    by (rule mul_assoc[symmetric]) (simp_all add: assms o)
  also have "\<dots> = Y" by (simp add: o(4) mul_identity_left assms)
  finally show "mat_mul (mat_mul X (tr Q)) (mat_mul Q Y) = mat_mul X Y" .
  have "mat_mul (mat_mul X Q) (mat_mul (tr Q) Y) = mat_mul X (mat_mul Q (mat_mul (tr Q) Y))"
    by (rule mul_assoc) (simp_all add: assms o)
  also have "mat_mul Q (mat_mul (tr Q) Y) = mat_mul (mat_mul Q (tr Q)) Y"
    by (rule mul_assoc[symmetric]) (simp_all add: assms o)
  also have "\<dots> = Y" by (simp add: o(3) mul_identity_left assms)
  finally show "mat_mul (mat_mul X Q) (mat_mul (tr Q) Y) = mat_mul X Y" .
qed

text \<open>
  The product of the matrix of singular values with the transposed matrix of their
  reciprocals is the identity on the first coordinates and zero on the others.
\<close>

lemma recip_product_left:
  assumes "length s \<le> m" "length s \<le> n" "0 \<notin> set s"
  shows "mat_mul (tr (diagsvd (map (\<lambda>x. 1 / x) s) m n)) (diagsvd s m n)
         = diagsvd (replicate (length s) 1) n n"
proof (rule array_eqI)
  let ?D = "diagsvd (map (\<lambda>x. 1 / x) s) m n" and ?S = "diagsvd s m n"
  fix i j assume "i < nrows (mat_mul (tr ?D) ?S)" "j < ncols (mat_mul (tr ?D) ?S)"
  then have i: "i < n" and j: "j < n" by simp_all
  have nz: "k < length s \<Longrightarrow> s ! k \<noteq> 0" for k using assms(3) by (metis nth_mem)
  have "entry (mat_mul (tr ?D) ?S) i j = (\<Sum>k<m. entry (tr ?D) i k * entry ?S k j)"
    by (simp add: entry_mul i j)
  also have "\<dots> = (\<Sum>k<m. if k = i then (if i = j \<and> i < length s then 1 else 0) else 0)"
    by (rule sum.cong) (auto simp: i j nz)
  also have "\<dots> = (if i = j \<and> i < length s then 1 else 0)"
    using assms(1) by (cases "i < m") (simp_all add: sum_if_eq)
  finally show "entry (mat_mul (tr ?D) ?S) i j = entry (diagsvd (replicate (length s) 1) n n) i j"
    by (simp add: i j)
qed simp_all

lemma recip_product_right:
  assumes "length s \<le> m" "length s \<le> n" "0 \<notin> set s"
  shows "mat_mul (diagsvd s m n) (tr (diagsvd (map (\<lambda>x. 1 / x) s) m n))
         = diagsvd (replicate (length s) 1) m m"
proof (rule array_eqI)
  let ?D = "diagsvd (map (\<lambda>x. 1 / x) s) m n" and ?S = "diagsvd s m n"
  fix i j assume "i < nrows (mat_mul ?S (tr ?D))" "j < ncols (mat_mul ?S (tr ?D))"
  then have i: "i < m" and j: "j < m" by simp_all
  have nz: "k < length s \<Longrightarrow> s ! k \<noteq> 0" for k using assms(3) by (metis nth_mem)
  have "entry (mat_mul ?S (tr ?D)) i j = (\<Sum>k<n. entry ?S i k * entry (tr ?D) k j)"
    by (simp add: entry_mul i j)
  also have "\<dots> = (\<Sum>k<n. if k = i then (if i = j \<and> i < length s then 1 else 0) else 0)"
    by (rule sum.cong) (auto simp: i j nz)
  also have "\<dots> = (if i = j \<and> i < length s then 1 else 0)"
    using assms(2) by (cases "i < n") (simp_all add: sum_if_eq)
  finally show "entry (mat_mul ?S (tr ?D)) i j = entry (diagsvd (replicate (length s) 1) m m) i j"
    by (simp add: i j)
qed simp_all

lemma tr_diagsvd: "tr (diagsvd s m n) = diagsvd s n m"
  by (rule array_eqI) auto

lemma partial_identity_left:
  assumes "length d \<le> r"
  shows "mat_mul (diagsvd (replicate r 1) m m) (diagsvd d m n) = diagsvd d m n"
proof (rule array_eqI)
  let ?P = "diagsvd (replicate r 1) m m" and ?S = "diagsvd d m n"
  fix i j assume "i < nrows (mat_mul ?P ?S)" "j < ncols (mat_mul ?P ?S)"
  then have i: "i < m" and j: "j < n" by simp_all
  have "entry (mat_mul ?P ?S) i j = (\<Sum>k<m. entry ?P i k * entry ?S k j)"
    by (simp add: entry_mul i j)
  also have "\<dots> = (\<Sum>k<m. if k = i then (if i = j \<and> i < length d then d ! i else 0) else 0)"
    by (rule sum.cong) (use assms in \<open>auto simp: i j\<close>)
  also have "\<dots> = (if i = j \<and> i < length d then d ! i else 0)"
    by (simp add: sum_if_eq i)
  finally show "entry (mat_mul ?P ?S) i j = entry ?S i j"
    by (simp add: i j)
qed simp_all

lemma partial_identity_right:
  assumes "length d \<le> r"
  shows "mat_mul (diagsvd d m n) (diagsvd (replicate r 1) n n) = diagsvd d m n"
proof -
  have "tr (mat_mul (diagsvd (replicate r 1) n n) (diagsvd d n m)) = tr (diagsvd d n m)"
    by (simp add: partial_identity_left assms)
  then show ?thesis
    by (simp add: tr_mul tr_diagsvd)
qed


lemma orthogonal_tr: "orthogonal Q \<Longrightarrow> orthogonal (tr Q)"
  by (simp add: orthogonal_def tr_tr)

lemma sandwich:
  fixes P Z :: matrix
  assumes "orthogonal Q" "is_array Z" "nrows P = nrows Q" "ncols P = nrows Q" "nrows Z = nrows Q"
  shows "mat_mul (mat_mul Q (mat_mul P (tr Q))) (mat_mul Q Z) = mat_mul Q (mat_mul P Z)"
proof -
  note o = orthogonalD[OF assms(1)]
  have "mat_mul Q (mat_mul P (tr Q)) = mat_mul (mat_mul Q P) (tr Q)"
    by (rule mul_assoc[symmetric]) (simp_all add: assms o)
  then have "mat_mul (mat_mul Q (mat_mul P (tr Q))) (mat_mul Q Z)
             = mat_mul (mat_mul (mat_mul Q P) (tr Q)) (mat_mul Q Z)"
    by simp
  also have "\<dots> = mat_mul (mat_mul Q P) Z"
    by (rule cancel_orthogonal(1)[OF assms(1)]) (simp_all add: assms)
  also have "\<dots> = mat_mul Q (mat_mul P Z)"
    by (rule mul_assoc) (simp_all add: assms o)
  finally show ?thesis .
qed

lemma conjugate_symmetric:
  fixes P :: matrix
  assumes "is_array Q" "ncols Q = nrows Q" "nrows P = nrows Q" "ncols P = nrows Q" "tr P = P"
  shows "tr (mat_mul Q (mat_mul P (tr Q))) = mat_mul Q (mat_mul P (tr Q))"
proof -
  have "tr (mat_mul Q (mat_mul P (tr Q))) = mat_mul (tr (mat_mul P (tr Q))) (tr Q)"
    by (rule tr_mul) (simp add: assms)
  also have "tr (mat_mul P (tr Q)) = mat_mul (tr (tr Q)) (tr P)"
    by (rule tr_mul) (simp add: assms)
  also have "\<dots> = mat_mul Q P" by (simp add: tr_tr assms)
  also have "mat_mul (mat_mul Q P) (tr Q) = mat_mul Q (mat_mul P (tr Q))"
    by (rule mul_assoc) (simp_all add: assms)
  finally show ?thesis .
qed

section \<open>The Penrose conditions from the SVD\<close>

text \<open>
  For a matrix of any shape whose singular values are not zero, \<open>V D\<^sup>T U\<^sup>T\<close>, where
  \<open>D\<close> has the shape of the matrix and the reciprocals of the singular values on its
  main diagonal, satisfies the four Penrose conditions.
\<close>

lemma svd_gives_pinv:
  assumes c0: "svd_contract A (U, s, VT)" and nz: "0 \<notin> set s"
  shows "is_pinv A
           (mat_mul (mat_mul (tr VT) (tr (diagsvd (map (\<lambda>x. 1 / x) s) (nrows A) (ncols A))))
                    (tr U))"
proof -
  note c = svd_contractD[OF c0]
  note oU = orthogonalD[OF c(2)] and oV = orthogonalD[OF c(4)]
  define m where "m = nrows A"
  define n where "n = ncols A"
  define d where "d = map (\<lambda>x. 1 / x) s"
  define S where "S = diagsvd s m n"
  define D where "D = diagsvd d m n"
  define V where "V = tr VT"
  define B where "B = mat_mul (mat_mul V (tr D)) (tr U)"
  define Pm where "Pm = diagsvd (replicate (length s) 1) m m"
  define Pn where "Pn = diagsvd (replicate (length s) 1) n n"
  have len: "length s \<le> m" "length s \<le> n" using c(6) by (simp_all add: m_def n_def)
  have shU: "is_array U" "nrows U = m" "ncols U = m" using oU c(3) by (simp_all add: m_def)
  have shVT: "is_array VT" "nrows VT = n" "ncols VT = n" using oV c(5) by (simp_all add: n_def)
  have shV: "is_array V" "nrows V = n" "ncols V = n" by (simp_all add: V_def shVT)
  have shS: "is_array S" "nrows S = m" "ncols S = n" by (simp_all add: S_def)
  have shD: "is_array D" "nrows D = m" "ncols D = n" by (simp_all add: D_def)
  have shA: "is_array A" "nrows A = m" "ncols A = n" using c(1) by (simp_all add: m_def n_def)
  have shP: "nrows Pm = m" "ncols Pm = m" "nrows Pn = n" "ncols Pn = n"
    by (simp_all add: Pm_def Pn_def)
  note sh = shU shVT shV shS shD shA shP
  have oVt: "orthogonal V" unfolding V_def by (rule orthogonal_tr) (rule c(4))
  have trV: "tr V = VT" by (simp add: V_def tr_tr shVT)
  have shB: "is_array B" "nrows B = n" "ncols B = m" by (simp_all add: B_def sh)
  have A1: "A = mat_mul (mat_mul U S) VT" using c(7) by (simp add: S_def m_def n_def)
  have A2: "A = mat_mul U (mat_mul S VT)"
    using svd_product[OF c0] by (simp add: S_def m_def n_def)
  have B2: "B = mat_mul V (mat_mul (tr D) (tr U))"
    unfolding B_def by (rule mul_assoc) (simp_all add: sh)
  have SD: "mat_mul S (tr D) = Pm"
    unfolding S_def D_def d_def Pm_def by (rule recip_product_right) (simp_all add: len nz)
  have DS: "mat_mul (tr D) S = Pn"
    unfolding S_def D_def d_def Pn_def by (rule recip_product_left) (simp_all add: len nz)
  have PS: "mat_mul Pm S = S"
    unfolding Pm_def S_def by (rule partial_identity_left) simp
  have PD: "mat_mul Pn (tr D) = tr D"
    unfolding Pn_def D_def tr_diagsvd by (rule partial_identity_left) (simp add: d_def)
  have trP: "tr Pm = Pm" "tr Pn = Pn" by (simp_all add: Pm_def Pn_def tr_diagsvd)
  \<comment> \<open>the two products\<close>
  have "mat_mul A B = mat_mul (mat_mul (mat_mul U S) VT) (mat_mul (tr VT) (mat_mul (tr D) (tr U)))"
    using A1 B2 by (simp add: V_def)
  also have "\<dots> = mat_mul (mat_mul U S) (mat_mul (tr D) (tr U))"
    by (rule cancel_orthogonal(2)[OF c(4)]) (simp_all add: sh)
  also have "\<dots> = mat_mul U (mat_mul S (mat_mul (tr D) (tr U)))"
    by (rule mul_assoc) (simp_all add: sh)
  also have "mat_mul S (mat_mul (tr D) (tr U)) = mat_mul (mat_mul S (tr D)) (tr U)"
    by (rule mul_assoc[symmetric]) (simp_all add: sh)
  finally have AB: "mat_mul A B = mat_mul U (mat_mul Pm (tr U))" by (simp add: SD)
  have "mat_mul B A = mat_mul (mat_mul (mat_mul V (tr D)) (tr U)) (mat_mul U (mat_mul S VT))"
    using A2 by (simp add: B_def)
  also have "\<dots> = mat_mul (mat_mul V (tr D)) (mat_mul S VT)"
    by (rule cancel_orthogonal(1)[OF c(2)]) (simp_all add: sh)
  also have "\<dots> = mat_mul V (mat_mul (tr D) (mat_mul S VT))"
    by (rule mul_assoc) (simp_all add: sh)
  also have "mat_mul (tr D) (mat_mul S VT) = mat_mul (mat_mul (tr D) S) VT"
    by (rule mul_assoc[symmetric]) (simp_all add: sh)
  finally have BA: "mat_mul B A = mat_mul V (mat_mul Pn (tr V))" by (simp add: DS trV)
  \<comment> \<open>the four Penrose conditions\<close>
  have "mat_mul (mat_mul A B) A = mat_mul (mat_mul U (mat_mul Pm (tr U))) (mat_mul U (mat_mul S VT))"
    using A2 AB by simp
  also have "\<dots> = mat_mul U (mat_mul Pm (mat_mul S VT))"
    by (rule sandwich[OF c(2)]) (simp_all add: sh)
  also have "mat_mul Pm (mat_mul S VT) = mat_mul (mat_mul Pm S) VT"
    by (rule mul_assoc[symmetric]) (simp_all add: sh)
  finally have P1: "mat_mul (mat_mul A B) A = A" using A2 by (simp add: PS)
  have "mat_mul (mat_mul B A) B
        = mat_mul (mat_mul V (mat_mul Pn (tr V))) (mat_mul V (mat_mul (tr D) (tr U)))"
    using B2 BA by simp
  also have "\<dots> = mat_mul V (mat_mul Pn (mat_mul (tr D) (tr U)))"
    by (rule sandwich[OF oVt]) (simp_all add: sh)
  also have "mat_mul Pn (mat_mul (tr D) (tr U)) = mat_mul (mat_mul Pn (tr D)) (tr U)"
    by (rule mul_assoc[symmetric]) (simp_all add: sh)
  finally have P2: "mat_mul (mat_mul B A) B = B" using B2 by (simp add: PD)
  have P3: "tr (mat_mul A B) = mat_mul A B"
    unfolding AB by (rule conjugate_symmetric) (simp_all add: sh trP)
  have P4: "tr (mat_mul B A) = mat_mul B A"
    unfolding BA by (rule conjugate_symmetric) (simp_all add: sh trP)
  have "is_pinv A B"
    unfolding is_pinv_def using shB P1 P2 P3 P4 by (simp add: sh)
  then show ?thesis
    by (simp add: B_def V_def D_def d_def m_def n_def)
qed

section \<open>The pseudoinverse is unique\<close>

text \<open>
  Two matrices that satisfy the four Penrose conditions for \<open>A\<close> are equal.
\<close>

lemma is_pinvD:
  assumes "is_pinv A P"
  shows "is_array P" "nrows P = ncols A" "ncols P = nrows A"
    "mat_mul (mat_mul A P) A = A" "mat_mul (mat_mul P A) P = P"
    "tr (mat_mul A P) = mat_mul A P" "tr (mat_mul P A) = mat_mul P A"
  using assms by (simp_all add: is_pinv_def)

lemma pinv_unique:
  assumes P: "is_pinv A P" and Q: "is_pinv A Q"
  shows "P = Q"
proof -
  note p = is_pinvD[OF P] and q = is_pinvD[OF Q]
  note sh = p(1-3) q(1-3)
  have AP_AQ: "mat_mul A P = mat_mul A Q"
  proof -
    have "mat_mul A P = mat_mul (mat_mul (mat_mul A Q) A) P" by (simp add: q(4))
    also have "\<dots> = mat_mul (mat_mul A Q) (mat_mul A P)"
      by (rule mul_assoc) (simp_all add: sh)
    also have "\<dots> = mat_mul (tr (mat_mul A Q)) (tr (mat_mul A P))" by (simp add: p(6) q(6))
    also have "\<dots> = tr (mat_mul (mat_mul A P) (mat_mul A Q))"
      by (rule tr_mul[symmetric]) (simp_all add: sh)
    also have "mat_mul (mat_mul A P) (mat_mul A Q) = mat_mul (mat_mul (mat_mul A P) A) Q"
      by (rule mul_assoc[symmetric]) (simp_all add: sh)
    also have "\<dots> = mat_mul A Q" by (simp add: p(4))
    finally show ?thesis by (simp add: q(6))
  qed
  have PA_QA: "mat_mul P A = mat_mul Q A"
  proof -
    have a1: "mat_mul (mat_mul A Q) A = mat_mul A (mat_mul Q A)"
      by (rule mul_assoc) (simp_all add: sh)
    have a2: "mat_mul (mat_mul A P) A = mat_mul A (mat_mul P A)"
      by (rule mul_assoc) (simp_all add: sh)
    have "mat_mul P A = mat_mul P (mat_mul A (mat_mul Q A))" using a1 by (simp add: q(4))
    also have "\<dots> = mat_mul (mat_mul P A) (mat_mul Q A)"
      by (rule mul_assoc[symmetric]) (simp_all add: sh)
    also have "\<dots> = mat_mul (tr (mat_mul P A)) (tr (mat_mul Q A))" by (simp add: p(7) q(7))
    also have "\<dots> = tr (mat_mul (mat_mul Q A) (mat_mul P A))"
      by (rule tr_mul[symmetric]) (simp_all add: sh)
    also have "mat_mul (mat_mul Q A) (mat_mul P A) = mat_mul Q (mat_mul A (mat_mul P A))"
      by (rule mul_assoc) (simp_all add: sh)
    also have "\<dots> = mat_mul Q A" using a2 by (simp add: p(4))
    finally show ?thesis by (simp add: q(7))
  qed
  have "P = mat_mul (mat_mul P A) P" by (simp add: p(5))
  also have "\<dots> = mat_mul (mat_mul Q A) P" by (simp add: PA_QA)
  also have "\<dots> = mat_mul Q (mat_mul A P)"
    by (rule mul_assoc) (simp_all add: sh)
  also have "\<dots> = mat_mul Q (mat_mul A Q)" by (simp add: AP_AQ)
  also have "\<dots> = mat_mul (mat_mul Q A) Q"
    by (rule mul_assoc[symmetric]) (simp_all add: sh)
  also have "\<dots> = Q" by (simp add: q(5))
  finally show ?thesis .
qed

lemma svd_pinv:
  assumes "svd_contract A (U, s, VT)" "0 \<notin> set s" "is_pinv A P"
  shows "mat_mul (mat_mul (tr VT) (tr (diagsvd (map (\<lambda>x. 1 / x) s) (nrows A) (ncols A)))) (tr U)
         = P"
  using pinv_unique[OF svd_gives_pinv[OF assms(1,2)] assms(3)] .

section \<open>Full column rank\<close>

lemma full_rank_singular_values:
  assumes c0: "svd_contract A (U, s, VT)" and tall: "ncols A \<le> nrows A"
    and rank: "full_column_rank A"
  shows "0 \<notin> set s"
proof
  assume "0 \<in> set s"
  note c = svd_contractD[OF c0]
  note oU = orthogonalD[OF c(2)] and oV = orthogonalD[OF c(4)]
  define m where "m = nrows A"
  define n where "n = ncols A"
  have len: "length s = n" using c(6) tall by (simp add: n_def)
  obtain i where i: "i < n" "s ! i = 0"
    using \<open>0 \<in> set s\<close> len by (metis in_set_conv_nth)
  have shV: "is_array VT" "nrows VT = n" "ncols VT = n" using oV c(5) by (simp_all add: n_def)
  have shU: "is_array U" "nrows U = m" "ncols U = m" using oU c(3) by (simp_all add: m_def)
  have shA: "is_array A" "nrows A = m" "ncols A = n" using c(1) by (simp_all add: m_def n_def)
  define v where "v = map (entry VT i) [0..<n]"
  have lv: "length v = n" by (simp add: v_def)
  have vk: "k < n \<Longrightarrow> v ! k = entry VT i k" for k by (simp add: v_def)
  \<comment> \<open>the row of VT is a unit vector\<close>
  have "entry (mat_mul VT (tr VT)) i i = (\<Sum>k<n. entry VT i k * entry (tr VT) k i)"
    using i(1) by (simp add: entry_mul shV)
  also have "\<dots> = (\<Sum>k<n. v ! k * v ! k)"
    by (rule sum.cong) (use i in \<open>simp_all add: shV vk\<close>)
  finally have unit: "(\<Sum>k<n. v ! k * v ! k) = 1"
    using oV(3) i(1) by (simp add: shV)
  \<comment> \<open>A maps that row to zero, because its singular value is zero\<close>
  have kernel: "mat_mul A (column v) = zeros m 1"
  proof (rule array_eqI)
    fix r j assume "r < nrows (mat_mul A (column v))" "j < ncols (mat_mul A (column v))"
    then have r: "r < m" and j: "j = 0" by (simp_all add: shA)
    have "entry (mat_mul A (column v)) r 0 = (\<Sum>k<n. entry A r k * entry (column v) k 0)"
      using r by (simp add: entry_mul shA)
    also have "\<dots> = (\<Sum>k<n. entry A r k * entry (tr VT) k i)"
      by (rule sum.cong) (use i in \<open>simp_all add: lv shV vk\<close>)
    also have "\<dots> = entry (mat_mul A (tr VT)) r i"
      using r i(1) by (simp add: entry_mul shA shV)
    also have "\<dots> = entry (mat_mul U (diagsvd s m n)) r i"
      using svd_times_V[OF c0] by (simp add: m_def n_def)
    also have "\<dots> = (\<Sum>k<m. entry U r k * entry (diagsvd s m n) k i)"
      using r i(1) by (simp add: entry_mul shU)
    also have "\<dots> = (\<Sum>k<m. (0::real))"
      by (rule sum.cong) (use i in \<open>auto\<close>)
    finally show "entry (mat_mul A (column v)) r j = entry (zeros m 1) r j"
      using r j by simp
  qed (simp_all add: shA)
  have "v = replicate n 0"
    using rank lv kernel by (simp add: full_column_rank_def m_def n_def)
  then have "(\<Sum>k<n. v ! k * v ! k) = 0" by simp
  then show False using unit by simp
qed


section \<open>Arrays of floats that hold real numbers\<close>

lemma total_Finite: "total (map (\<lambda>k. Finite (f k)) xs) = Finite (total (map f xs))"
  by (induction xs) (simp_all add: total_def zero_float_def)

lemma nrows_floats [simp]: "nrows (floats A) = nrows A"
  by (simp add: floats_def)

lemma ncols_floats [simp]: "ncols (floats A) = ncols A"
  by (simp add: floats_def)

lemma floats_tabulate: "floats (tabulate m n f) = tabulate m n (\<lambda>i j. Finite (f i j))"
  by (simp add: floats_def tabulate_def)

lemma floats_entries:
  "is_array A \<Longrightarrow> floats A = tabulate (nrows A) (ncols A) (\<lambda>i j. Finite (entry A i j))"
  using floats_tabulate[of "nrows A" "ncols A" "entry A"] by (simp add: tabulate_entry)

lemma entry_floats:
  "is_array A \<Longrightarrow> i < nrows A \<Longrightarrow> j < ncols A \<Longrightarrow> entry (floats A) i j = Finite (entry A i j)"
  by (simp add: floats_entries)

lemma tr_floats:
  assumes "is_array A"
  shows "tr (floats A) = floats (tr A)"
  unfolding tr_def floats_tabulate nrows_floats ncols_floats
  by (rule tabulate_cong) (simp add: entry_floats assms)

lemma mat_mul_floats:
  assumes "is_array A" "is_array B" "ncols A = nrows B"
  shows "mat_mul (floats A) (floats B) = floats (mat_mul A B)"
  unfolding mat_mul_def floats_tabulate nrows_floats ncols_floats
proof (rule tabulate_cong)
  fix i j assume i: "i < nrows A" and j: "j < ncols B"
  have eq: "map (\<lambda>k. entry (floats A) i k * entry (floats B) k j) [0..<ncols A]
        = map (\<lambda>k. Finite (entry A i k * entry B k j)) [0..<ncols A]"
    by (rule map_cong) (simp_all add: entry_floats assms i j)
  show "total (map (\<lambda>k. entry (floats A) i k * entry (floats B) k j) [0..<ncols A])
             = Finite (total (map (\<lambda>k. entry A i k * entry B k j) [0..<ncols A]))"
    unfolding eq by (rule total_Finite)
qed

lemma dot_floats:
  assumes "is_array A" "is_array B" "ncols A = nrows B"
  shows "dot (floats A) (floats B) = Inr (floats (mat_mul A B))"
  by (simp add: dot_def assms mat_mul_floats)

lemma assign_block_floats:
  assumes "length d = n" "n \<le> m"
  shows "assign_block (zeros m n) n (diag (map Finite d)) = Inr (floats (diagsvd d m n))"
proof -
  have "tabulate m n (\<lambda>i j. if i < n \<and> j < n
                               then entry (diag (map Finite d)) (if n = 1 then 0 else i)
                                      (if n = 1 then 0 else j)
                               else entry (zeros m n :: float array) i j)
        = floats (diagsvd d m n)"
    unfolding diagsvd_def floats_tabulate
    by (rule tabulate_cong) (auto simp: assms zero_float_def)
  then show ?thesis
    using assms by (simp add: assign_block_def Let_def min_def)
qed

lemma reciprocal_nonzero:
  "0 \<notin> set s \<Longrightarrow> reciprocal s = (False, map Finite (map (\<lambda>x. 1 / x) s))"
  by (auto simp: reciprocal_def float_reciprocal_def)

lemma reciprocal_warns: "fst (reciprocal s) \<longleftrightarrow> 0 \<in> set s"
  by (simp add: reciprocal_def)

lemma reciprocal_finite: "list_all is_finite (snd (reciprocal s)) \<longleftrightarrow> 0 \<notin> set s"
  by (induction s) (auto simp: reciprocal_def float_reciprocal_def is_finite_def)

section \<open>The cells of the SVD notebook\<close>






lemma pinv_via_svd_correct:
  assumes "svd A = Inr (U, s, VT)" "svd_contract A (U, s, VT)" "ncols A \<le> nrows A"
    and "0 \<notin> set s" "is_pinv A P"
  shows "pinv_via_svd svd A = Inr (False, floats P)"
proof -
  note c = svd_contractD[OF assms(2)]
  note oU = orthogonalD[OF c(2)] and oV = orthogonalD[OF c(4)]
  define d where "d = map (\<lambda>x. 1 / x) s"
  define D where "D = diagsvd d (nrows A) (ncols A)"
  have len: "length d = ncols A" using c(6) assms(3) by (simp add: d_def)
  have rec: "reciprocal s = (False, map Finite d)"
    using assms(4) by (simp add: reciprocal_nonzero d_def)
  have blk: "assign_block (zeros (nrows A) (ncols A)) (ncols A) (diag (map Finite d))
             = Inr (floats D)"
    unfolding D_def by (rule assign_block_floats) (simp_all add: len assms)
  have d1: "dot (tr (floats VT)) (tr (floats D)) = Inr (floats (mat_mul (tr VT) (tr D)))"
    by (simp add: tr_floats oV D_def dot_floats c)
  have d2: "dot (floats (mat_mul (tr VT) (tr D))) (tr (floats U))
            = Inr (floats (mat_mul (mat_mul (tr VT) (tr D)) (tr U)))"
    by (simp add: tr_floats oU D_def dot_floats c)
  have "mat_mul (mat_mul (tr VT) (tr D)) (tr U) = P"
    unfolding D_def d_def by (rule svd_pinv) (rule assms)+
  then show ?thesis
    unfolding pinv_via_svd_def assms(1) by (simp add: rec blk d1 d2)
qed

lemma pinv_via_svd_warns:
  assumes "svd A = Inr (U, s, VT)" "pinv_via_svd svd A = Inr (w, B)"
  shows "w \<longleftrightarrow> 0 \<in> set s"
  using assms(2) unfolding pinv_via_svd_def assms(1)
  by (auto simp: reciprocal_def and_then_def split: sum.splits)

lemma svd_failure_ends_cell:
  assumes "svd A = Inl e"
  shows "reconstruct_rect svd A = Inl e" "reconstruct_square svd A = Inl e"
    "pinv_via_svd svd A = Inl e" "reduce svd A k = Inl e"
  by (simp_all add: reconstruct_rect_def reconstruct_square_def pinv_via_svd_def reduce_def assms)

lemma array_shape:
  "nrows (array (r # rs)) = Suc (length rs)" "ncols (array (r # rs)) = length r"
  by (simp_all add: array_def)



lemma pinv_A_shape: "nrows pinv_A = 4" "ncols pinv_A = 2"
  by (simp_all add: pinv_A_def array_shape)



lemma pinv_A_full_column_rank: "full_column_rank pinv_A"
  unfolding full_column_rank_def
proof (intro allI impI)
  fix v assume a: "length v = ncols pinv_A \<and> mat_mul pinv_A (column v) = zeros (nrows pinv_A) 1"
  then have "length v = 2" by (simp add: pinv_A_shape)
  then obtain x y where v: "v = [x, y]"
    by (metis (no_types, opaque_lifting) Suc_length_conv length_0_conv numeral_2_eq_2)
  have "0.1 * x + 0.2 * y = 0" "0.3 * x + 0.4 * y = 0"
    using a
    by (simp_all add: v pinv_A_def column_def mat_mul_def zeros_def array_def tabulate_def
          entry_def total_def)
  then have "x = 0" "y = 0" by simp_all
  then show "v = replicate (ncols pinv_A) 0"
    by (simp add: v pinv_A_shape numeral_2_eq_2)
qed

section \<open>The example inputs\<close>

lemmas np_defs = array_def tabulate_def entry_def is_array_def zeros_def diag_def tr_def
  total_def mat_mul_def dot_def assign_block_def take_cols_def take_rows_def reciprocal_def
  float_reciprocal_def floats_def identity_def diagsvd_def orthogonal_def svd_contract_def
  is_pinv_def zero_float_def scale_inf_def Let_def

lemma demo_contract: "svd_contract demo_A demo_factors"
  by (simp add: demo_A_def demo_factors_def np_defs del: map_eq_conv)

lemma demo_shape: "ncols demo_A \<le> nrows demo_A"
  by (simp add: demo_A_def array_shape)

lemma demo_nonzero: "0 \<notin> set (fst (snd demo_factors))"
  by (simp add: demo_factors_def)

lemma demo_is_pinv: "is_pinv demo_A demo_P"
  by (simp add: demo_A_def demo_P_def np_defs del: map_eq_conv)

lemma demo_full_column_rank: "full_column_rank demo_A"
  unfolding full_column_rank_def
proof (intro allI impI)
  fix v assume a: "length v = ncols demo_A \<and> mat_mul demo_A (column v) = zeros (nrows demo_A) 1"
  then have "length v = 2" by (simp add: demo_A_def array_shape)
  then obtain x y where v: "v = [x, y]"
    by (metis (no_types, opaque_lifting) Suc_length_conv length_0_conv numeral_2_eq_2)
  have "- (4 * x / 5) + 3 * y / 5 = 0" "6 * x / 5 + 8 * y / 5 = 0"
    using a
    by (simp_all add: v demo_A_def column_def mat_mul_def zeros_def array_def tabulate_def
          entry_def total_def)
  then have "x = 0" "y = 0" by simp_all
  then show "v = replicate (ncols demo_A) 0"
    by (simp add: v demo_A_def array_shape)
qed



lemma demo_wide_contract: "svd_contract demo_wide_A demo_wide_factors"
  by (simp add: demo_wide_A_def demo_wide_factors_def np_defs del: map_eq_conv)


lemma demo_wide_nonzero: "0 \<notin> set (fst (snd demo_wide_factors))"
  by (simp add: demo_wide_factors_def)

lemma demo_wide_is_pinv: "is_pinv demo_wide_A demo_wide_P"
  by (simp add: demo_wide_A_def demo_wide_P_def np_defs del: map_eq_conv)

lemma demo_rect: "reconstruct_rect demo_svd demo_A = Inr demo_A"
  by (simp add: reconstruct_rect_def demo_A_def demo_svd_def demo_factors_def np_defs del: map_eq_conv)

lemma demo_square: "reconstruct_square demo_square_svd demo_square_A = Inr demo_square_A"
  by (simp add: reconstruct_square_def demo_square_A_def demo_square_svd_def
        demo_square_factors_def np_defs del: map_eq_conv)



lemma demo_pinv_via_svd:
  "pinv_via_svd demo_svd demo_A = Inr (False, floats demo_P)"
  by (simp add: pinv_via_svd_def demo_A_def demo_svd_def demo_factors_def demo_P_def np_defs del: map_eq_conv)

lemma demo_wide_rect: "reconstruct_rect demo_wide_svd demo_wide_A = Inl ValueError"
  by (simp add: reconstruct_rect_def demo_wide_A_def demo_wide_svd_def demo_wide_factors_def
        np_defs del: map_eq_conv)

lemma singular_contract: "svd_contract singular_A singular_factors"
  by (simp add: singular_A_def singular_factors_def np_defs del: map_eq_conv)

lemma singular_pinv_via_svd:
  "pinv_via_svd singular_svd singular_A = Inr (True, array [[NaN, NaN], [NaN, PosInf]])"
  by (simp add: pinv_via_svd_def singular_A_def singular_svd_def singular_factors_def np_defs del: map_eq_conv)

lemma failing_rect: "reconstruct_rect failing_svd rect_A = Inl LinAlgError"
  by (simp add: reconstruct_rect_def failing_svd_def)

section \<open>Division of tensors\<close>

lemma tensor_division_cell:
  "tensor_divide tensor_A tensor_B =
     Inr (False,
          [[[1,1,1],[1,1,1],[1,1,1]], [[1,1,1],[1,1,1],[1,1,1]], [[1,1,1],[1,1,1],[1,1,1]]])"
  by (simp add: tensor_divide_def tensor_A_def tensor_B_def broadcast_def int_divide_def)

lemma tensor_B_nonzero: "0 \<notin> set (entries tensor_B)"
  by (simp add: entries_def tensor_B_def)

lemma zero_divisor_warns:
  "tensor_divide [[[1, 2]]] [[[1, 0]]] = Inr (True, [[[1, 0]]])"
  by (simp add: tensor_divide_def broadcast_def int_divide_def)

lemma misfit_raises:
  "tensor_divide [[[1, 2, 3]]] [[[1, 2]]] = Inl ValueError"
  by (simp add: tensor_divide_def broadcast_def int_divide_def)

lemma collect_warned:
  "collect rs = Inr (True, xs) \<Longrightarrow> \<exists>x. Inr (True, x) \<in> set rs"
proof (induction rs arbitrary: xs)
  case Nil
  then show ?case by simp
next
  case (Cons r rs)
  then show ?case
    by (cases r; cases "collect rs") (auto simp: and_then_def split: prod.splits)
qed

lemma broadcast_warned:
  assumes "broadcast f xs ys = Inr (True, zs)"
  shows "\<exists>x \<in> set xs. \<exists>y \<in> set ys. \<exists>z. f x y = Inr (True, z)"
proof -
  consider "length xs = length ys" | "length xs \<noteq> length ys" "length xs = 1"
    | "length xs \<noteq> length ys" "length xs \<noteq> 1" "length ys = 1"
    | "length xs \<noteq> length ys" "length xs \<noteq> 1" "length ys \<noteq> 1"
    by blast
  then show ?thesis
  proof cases
    case 1
    then obtain z where "Inr (True, z) \<in> set (map2 f xs ys)"
      using assms collect_warned by (fastforce simp: broadcast_def)
    then obtain x y where "(x, y) \<in> set (zip xs ys)" "f x y = Inr (True, z)" by auto
    then show ?thesis by (meson set_zip_leftD set_zip_rightD)
  next
    case 2
    then obtain z where "Inr (True, z) \<in> set (map (f (hd xs)) ys)"
      using assms collect_warned by (fastforce simp: broadcast_def)
    then obtain y where "y \<in> set ys" "f (hd xs) y = Inr (True, z)" by auto
    moreover have "hd xs \<in> set xs" using 2(2) by (cases xs) auto
    ultimately show ?thesis by blast
  next
    case 3
    then obtain z where "Inr (True, z) \<in> set (map (\<lambda>x. f x (hd ys)) xs)"
      using assms collect_warned by (fastforce simp: broadcast_def)
    then obtain x where "x \<in> set xs" "f x (hd ys) = Inr (True, z)" by auto
    moreover have "hd ys \<in> set ys" using 3(3) by (cases ys) auto
    ultimately show ?thesis by blast
  next
    case 4
    then show ?thesis using assms by (simp add: broadcast_def)
  qed
qed

lemma tensor_divide_warns:
  assumes "tensor_divide A B = Inr (True, C)"
  shows "0 \<in> set (entries B)"
proof -
  obtain a b c where b: "b \<in> set B"
    and 1: "broadcast (broadcast (\<lambda>a b. Inr (int_divide a b))) a b = Inr (True, c)"
    using broadcast_warned[OF assms[unfolded tensor_divide_def]] by auto
  obtain r q p where q: "q \<in> set b" and 2: "broadcast (\<lambda>a b. Inr (int_divide a b)) r q = Inr (True, p)"
    using broadcast_warned[OF 1] by auto
  obtain x y z where y: "y \<in> set q" and 3: "Inr (int_divide x y) = (Inr (True, z) :: failure + bool \<times> int)"
    using broadcast_warned[OF 2] by auto
  have "y = 0" using 3 by (simp add: int_divide_def split: if_splits)
  then show ?thesis using b q y by (auto simp: entries_def)
qed


section \<open>Reconstruction from the SVD\<close>




section \<open>The pseudoinverse through the SVD\<close>

text \<open>
  C2: the pseudoinverse computed from the SVD equals the library pseudoinverse. For every
  matrix \<open>A\<close> all of whose singular values are nonzero, \<open>VT.T.dot(D.T).dot(U.T)\<close>,
  where \<open>D\<close> is the \<open>m\<close> by \<open>n\<close> matrix holding \<open>diag(1.0 / s)\<close>, is defined and
  equals \<open>pinv(A)\<close> in exact arithmetic. The cell builds that \<open>D\<close> by the assignment
  \<open>D[:n, :n] = diag(d)\<close> for every matrix with \<open>n \<le> m\<close>, as the 4 by 2 matrix of
  the two cells is, and then prints, without a warning, the matrix that the library cell
  prints. The reciprocal \<open>d = 1.0 / s\<close> warns exactly when a singular value is zero,
  and holds real numbers only exactly when none is. A matrix of full column rank with
  \<open>n \<le> m\<close> has no singular value zero, and the 4 by 2 matrix of the cells has full
  column rank.
\<close>

theorem C2_pinv_via_svd:
  "(\<forall>A r P. svd_contract A r \<and> 0 \<notin> set (fst (snd r)) \<and> is_pinv A P \<longrightarrow>
      (case r of (U, s, VT) \<Rightarrow>
         and_then (dot (tr VT) (tr (diagsvd (map (\<lambda>x. 1 / x) s) (nrows A) (ncols A))))
           (\<lambda>VD. dot VD (tr U))) = Inr P) \<and>
   (\<forall>svd pinv A r P.
      svd A = Inr r \<and> svd_contract A r \<and> ncols A \<le> nrows A \<and> 0 \<notin> set (fst (snd r)) \<and>
      pinv A = Inr P \<and> is_pinv A P \<longrightarrow>
      pinv_via_svd svd A = Inr (False, floats P) \<and> pinv_cell pinv A = Inr P) \<and>
   (\<forall>s. (fst (reciprocal s) \<longleftrightarrow> 0 \<in> set s) \<and>
        (list_all is_finite (snd (reciprocal s)) \<longleftrightarrow> 0 \<notin> set s)) \<and>
   (\<forall>A r. svd_contract A r \<and> ncols A \<le> nrows A \<and> full_column_rank A \<longrightarrow>
      0 \<notin> set (fst (snd r))) \<and>
   full_column_rank pinv_A \<and> nrows pinv_A = 4 \<and> ncols pinv_A = 2"
proof (intro conjI allI impI)
  fix A :: matrix and r :: "matrix \<times> vec \<times> matrix" and P
  assume a: "svd_contract A r \<and> 0 \<notin> set (fst (snd r)) \<and> is_pinv A P"
  obtain U s VT where r: "r = (U, s, VT)" by (cases r) auto
  note c = svd_contractD[OF a[THEN conjunct1, unfolded r]]
  have "mat_mul (mat_mul (tr VT) (tr (diagsvd (map (\<lambda>x. 1 / x) s) (nrows A) (ncols A)))) (tr U)
        = P"
    by (rule svd_pinv) (use a in \<open>simp_all add: r\<close>)
  then show "(case r of (U, s, VT) \<Rightarrow>
         and_then (dot (tr VT) (tr (diagsvd (map (\<lambda>x. 1 / x) s) (nrows A) (ncols A))))
           (\<lambda>VD. dot VD (tr U))) = Inr P"
    by (simp add: r dot_def c orthogonalD[OF c(2)] orthogonalD[OF c(4)])
next
  fix svd :: svd_fun and pinv :: pinv_fun and A r P
  assume a: "svd A = Inr r \<and> svd_contract A r \<and> ncols A \<le> nrows A \<and>
    0 \<notin> set (fst (snd r)) \<and> pinv A = Inr P \<and> is_pinv A P"
  then show "pinv_via_svd svd A = Inr (False, floats P)"
    by (cases r) (simp add: pinv_via_svd_correct)
  show "pinv_cell pinv A = Inr P"
    using a by (simp add: pinv_cell_def)
next
  fix s show "fst (reciprocal s) \<longleftrightarrow> 0 \<in> set s" by (rule reciprocal_warns)
  show "list_all is_finite (snd (reciprocal s)) \<longleftrightarrow> 0 \<notin> set s" by (rule reciprocal_finite)
next
  fix A :: matrix and r :: "matrix \<times> vec \<times> matrix"
  assume "svd_contract A r \<and> ncols A \<le> nrows A \<and> full_column_rank A"
  then show "0 \<notin> set (fst (snd r))"
    using full_rank_singular_values[of A "fst r" "fst (snd r)" "snd (snd r)"] by simp
next
  show "full_column_rank pinv_A" by (rule pinv_A_full_column_rank)
qed (simp_all add: pinv_A_shape)

text \<open>
  C2 on matrices with singular values 2 and 1: the formula on a 2 by 3 matrix, and the
  cell on a 3 by 2 matrix of full column rank. The decompositions satisfy the contract,
  the given pseudoinverses satisfy the Penrose conditions, and both computations return
  them.
\<close>

theorem C2_pinv_via_svd_witness:
  "svd_contract demo_wide_A demo_wide_factors \<and> 0 \<notin> set (fst (snd demo_wide_factors)) \<and>
   is_pinv demo_wide_A demo_wide_P \<and>
   (case demo_wide_factors of (U, s, VT) \<Rightarrow>
      and_then (dot (tr VT)
                  (tr (diagsvd (map (\<lambda>x. 1 / x) s) (nrows demo_wide_A) (ncols demo_wide_A))))
        (\<lambda>VD. dot VD (tr U))) = Inr demo_wide_P \<and>
   demo_svd demo_A = Inr demo_factors \<and> svd_contract demo_A demo_factors \<and>
   ncols demo_A \<le> nrows demo_A \<and> full_column_rank demo_A \<and>
   0 \<notin> set (fst (snd demo_factors)) \<and> demo_pinv demo_A = Inr demo_P \<and>
   is_pinv demo_A demo_P \<and>
   pinv_via_svd demo_svd demo_A = Inr (False, floats demo_P) \<and>
   pinv_cell demo_pinv demo_A = Inr demo_P"
proof -
  have 1: "demo_svd demo_A = Inr demo_factors" and 2: "demo_pinv demo_A = Inr demo_P"
    by (simp_all add: demo_svd_def demo_pinv_def)
  have "(case demo_wide_factors of (U, s, VT) \<Rightarrow>
      and_then (dot (tr VT)
                  (tr (diagsvd (map (\<lambda>x. 1 / x) s) (nrows demo_wide_A) (ncols demo_wide_A))))
        (\<lambda>VD. dot VD (tr U))) = Inr demo_wide_P"
    using C2_pinv_via_svd demo_wide_contract demo_wide_nonzero demo_wide_is_pinv by blast
  moreover have "pinv_via_svd demo_svd demo_A = Inr (False, floats demo_P) \<and>
      pinv_cell demo_pinv demo_A = Inr demo_P"
    using C2_pinv_via_svd 1 2 demo_contract demo_shape demo_nonzero demo_is_pinv by blast
  ultimately show ?thesis
    using 1 2 demo_wide_contract demo_wide_nonzero demo_wide_is_pinv demo_contract demo_shape
      demo_nonzero demo_is_pinv demo_full_column_rank
    by simp
qed


section \<open>The two transforms of the dimensionality reduction\<close>





section \<open>Where the cells divide and fit\<close>

text \<open>
  The statements of the cells that hold a partial operation: the division of the tensor
  cell, the reciprocal of the pseudoinverse cell, and the \<open>fit\<close> calls of the two
  tuning cells. No cell calls \<open>seterr\<close> or \<open>errstate\<close>, so NumPy's error settings
  are the default ones everywhere.
\<close>

lemma division_statement:
  "[Ident ''C'', Sym (CHR ''=''), Ident ''A'', Sym (CHR ''/''), Ident ''B'']
     \<in> set (cell_stmts tensor_cell_21)"
  by code_simp

lemma reciprocal_statement:
  "[Ident ''d'', Sym (CHR ''=''), Num ''1.0'', Sym (CHR ''/''), Ident ''s'']
     \<in> set (cell_stmts svd_cell_29)"
  by code_simp

lemma fit_calls:
  "''fit'' \<in> set (library_calls tuning_cell_1)" "''fit'' \<in> set (library_calls tuning_cell_3)"
  by (simp_all add: summary_calls tuning_cell_1_summary tuning_cell_3_summary)

lemma tuning_cells_listed:
  "tuning_cell_1 \<in> set all_code_cells" "tuning_cell_3 \<in> set all_code_cells"
  "tensor_cell_21 \<in> set all_code_cells"
  by (simp_all add: notebook_defs)

lemma no_cell_handles_failure:
  "\<forall>c \<in> set all_code_cells. \<not> handles_failure c"
  by (simp add: notebook_defs summary_guarded cell_summaries)

lemma default_error_settings:
  "\<forall>c \<in> set all_code_cells.
     ''seterr'' \<notin> set (library_calls c) \<and> ''errstate'' \<notin> set (library_calls c)"
  by (simp add: notebook_defs summary_calls cell_summaries)

section \<open>Failures are the library's\<close>

text \<open>
  C5: the repository defines no error handling of its own. No code cell contains a
  keyword that guards, catches or transforms a failure (\<open>try\<close>, \<open>except\<close>,
  \<open>raise\<close>, \<open>assert\<close>, \<open>if\<close> and the like) or changes NumPy's error
  settings, and the partial operations stand in such cells: the division \<open>C = A / B\<close>
  of the tensor cell, the reciprocal \<open>d = 1.0 / s\<close> of the pseudoinverse cell, the
  \<open>fit\<close> calls of the two tuning cells. So what the library raises is what the cell
  raises: when \<open>svd\<close> raises, each cell of the SVD notebook ends with that exception,
  and the library cell returns what \<open>pinv\<close> returns or raises. A division by zero
  is the library's warning: the tensor division warns only when the divisor has a zero
  entry, and the pseudoinverse cell exactly when a singular value is zero. On the inputs
  the cells supply neither happens: the divisor tensor has no zero entry and the division
  returns the tensor of ones without a warning; the 4 by 2 matrix of the pseudoinverse
  cell has full column rank, and for every matrix of full column rank with at least as
  many rows as columns, and every decomposition the library may return for it, the cell
  returns a matrix of real numbers without a warning.
\<close>

theorem C5_failures_unguarded:
  "(\<forall>c \<in> set all_code_cells.
      \<not> handles_failure c \<and>
      ''seterr'' \<notin> set (library_calls c) \<and> ''errstate'' \<notin> set (library_calls c)) \<and>
   [Ident ''C'', Sym (CHR ''=''), Ident ''A'', Sym (CHR ''/''), Ident ''B'']
     \<in> set (cell_stmts tensor_cell_21) \<and>
   [Ident ''d'', Sym (CHR ''=''), Num ''1.0'', Sym (CHR ''/''), Ident ''s'']
     \<in> set (cell_stmts svd_cell_29) \<and>
   ''fit'' \<in> set (library_calls tuning_cell_1) \<and>
   ''fit'' \<in> set (library_calls tuning_cell_3) \<and>
   (\<forall>svd A e. svd A = Inl e \<longrightarrow>
      reconstruct_rect svd A = Inl e \<and> reconstruct_square svd A = Inl e \<and>
      pinv_via_svd svd A = Inl e \<and> (\<forall>k. reduce svd A k = Inl e)) \<and>
   (\<forall>pinv A. pinv_cell pinv A = pinv A) \<and>
   (\<forall>A B C. tensor_divide A B = Inr (True, C) \<longrightarrow> 0 \<in> set (entries B)) \<and>
   (\<forall>svd A r w B. svd A = Inr r \<and> pinv_via_svd svd A = Inr (w, B) \<longrightarrow>
      (w \<longleftrightarrow> 0 \<in> set (fst (snd r)))) \<and>
   0 \<notin> set (entries tensor_B) \<and>
   tensor_divide tensor_A tensor_B =
     Inr (False,
          [[[1,1,1],[1,1,1],[1,1,1]], [[1,1,1],[1,1,1],[1,1,1]], [[1,1,1],[1,1,1],[1,1,1]]]) \<and>
   (\<forall>svd A r. svd A = Inr r \<and> svd_contract A r \<and> ncols A \<le> nrows A \<and>
      full_column_rank A \<longrightarrow>
      (\<exists>P. pinv_via_svd svd A = Inr (False, floats P))) \<and>
   full_column_rank pinv_A \<and> nrows pinv_A = 4 \<and> ncols pinv_A = 2"
proof (intro conjI allI impI ballI)
  fix c assume c: "c \<in> set all_code_cells"
  show "\<not> handles_failure c" using no_cell_handles_failure c by blast
  show "''seterr'' \<notin> set (library_calls c)" using default_error_settings c by blast
  show "''errstate'' \<notin> set (library_calls c)" using default_error_settings c by blast
next
  show "[Ident ''C'', Sym (CHR ''=''), Ident ''A'', Sym (CHR ''/''), Ident ''B'']
          \<in> set (cell_stmts tensor_cell_21)"
    by (rule division_statement)
  show "[Ident ''d'', Sym (CHR ''=''), Num ''1.0'', Sym (CHR ''/''), Ident ''s'']
          \<in> set (cell_stmts svd_cell_29)"
    by (rule reciprocal_statement)
  show "''fit'' \<in> set (library_calls tuning_cell_1)" by (rule fit_calls)
  show "''fit'' \<in> set (library_calls tuning_cell_3)" by (rule fit_calls)
  show "0 \<notin> set (entries tensor_B)" by (rule tensor_B_nonzero)
  show "tensor_divide tensor_A tensor_B =
     Inr (False,
          [[[1,1,1],[1,1,1],[1,1,1]], [[1,1,1],[1,1,1],[1,1,1]], [[1,1,1],[1,1,1],[1,1,1]]])"
    by (rule tensor_division_cell)
  show "full_column_rank pinv_A" by (rule pinv_A_full_column_rank)
  show "nrows pinv_A = 4" "ncols pinv_A = 2" by (simp_all add: pinv_A_shape)
next
  fix svd :: svd_fun and A e assume e: "svd A = Inl e"
  note ends = svd_failure_ends_cell[of svd A e, OF e]
  show "reconstruct_rect svd A = Inl e" "reconstruct_square svd A = Inl e"
    "pinv_via_svd svd A = Inl e"
    by (rule ends)+
  fix k show "reduce svd A k = Inl e" by (rule ends)
next
  fix pinv :: pinv_fun and A show "pinv_cell pinv A = pinv A" by (simp add: pinv_cell_def)
next
  fix A B C assume "tensor_divide A B = Inr (True, C)"
  then show "0 \<in> set (entries B)" by (rule tensor_divide_warns)
next
  fix svd :: svd_fun and A r w B
  assume a: "svd A = Inr r \<and> pinv_via_svd svd A = Inr (w, B)"
  show "w \<longleftrightarrow> 0 \<in> set (fst (snd r))"
    using pinv_via_svd_warns[of svd A "fst r" "fst (snd r)" "snd (snd r)" w B] a by simp
next
  fix svd :: svd_fun and A r
  assume a: "svd A = Inr r \<and> svd_contract A r \<and> ncols A \<le> nrows A \<and> full_column_rank A"
  obtain U s VT where r: "r = (U, s, VT)" by (cases r) auto
  have nz: "0 \<notin> set s"
    using full_rank_singular_values[of A U s VT] a by (simp add: r)
  have "is_pinv A (mat_mul (mat_mul (tr VT)
          (tr (diagsvd (map (\<lambda>x. 1 / x) s) (nrows A) (ncols A)))) (tr U))"
    by (rule svd_gives_pinv) (use a nz in \<open>simp_all add: r\<close>)
  then show "\<exists>P. pinv_via_svd svd A = Inr (False, floats P)"
    using pinv_via_svd_correct[of svd A U s VT] a nz by (auto simp: r)
qed

text \<open>
  C5 at cells and inputs. The tensor cell, the pseudoinverse cell and a tuning cell hold
  no guard. When \<open>svd\<close> raises \<open>LinAlgError\<close> the reconstruction cell ends with
  \<open>LinAlgError\<close>. The division by a tensor with one zero entry warns and goes on
  with 0 in that place; the pseudoinverse cell on a matrix with singular values 1 and 0
  warns and goes on to print \<open>nan\<close> and \<open>inf\<close>. On a 3 by 2 matrix of full column
  rank with singular values 2 and 1 the pseudoinverse cell returns a matrix of real
  numbers without a warning.
\<close>

theorem C5_failures_unguarded_witness:
  "tensor_cell_21 \<in> set all_code_cells \<and> \<not> handles_failure tensor_cell_21 \<and>
   svd_cell_29 \<in> set all_code_cells \<and> \<not> handles_failure svd_cell_29 \<and>
   tuning_cell_1 \<in> set all_code_cells \<and> \<not> handles_failure tuning_cell_1 \<and>
   failing_svd rect_A = Inl LinAlgError \<and> reconstruct_rect failing_svd rect_A = Inl LinAlgError \<and>
   tensor_divide [[[1, 2]]] [[[1, 0]]] = Inr (True, [[[1, 0]]]) \<and>
   0 \<in> set (entries [[[1, 0]]]) \<and>
   singular_svd singular_A = Inr singular_factors \<and>
   pinv_via_svd singular_svd singular_A = Inr (True, array [[NaN, NaN], [NaN, PosInf]]) \<and>
   0 \<in> set (fst (snd singular_factors)) \<and>
   demo_svd demo_A = Inr demo_factors \<and> svd_contract demo_A demo_factors \<and>
   ncols demo_A \<le> nrows demo_A \<and> full_column_rank demo_A \<and>
   (\<exists>P. pinv_via_svd demo_svd demo_A = Inr (False, floats P))"
proof -
  note unguarded = C5_failures_unguarded[THEN conjunct1]
  note raises = C5_failures_unguarded[THEN conjunct2, THEN conjunct2, THEN conjunct2, THEN conjunct2, THEN conjunct2, THEN conjunct1]
  note divide = C5_failures_unguarded[THEN conjunct2, THEN conjunct2, THEN conjunct2, THEN conjunct2, THEN conjunct2, THEN conjunct2, THEN conjunct2, THEN conjunct1]
  note warns = C5_failures_unguarded[THEN conjunct2, THEN conjunct2, THEN conjunct2, THEN conjunct2, THEN conjunct2, THEN conjunct2, THEN conjunct2, THEN conjunct2, THEN conjunct1]
  note full_rank = C5_failures_unguarded[THEN conjunct2, THEN conjunct2, THEN conjunct2, THEN conjunct2, THEN conjunct2, THEN conjunct2, THEN conjunct2, THEN conjunct2, THEN conjunct2, THEN conjunct2, THEN conjunct2, THEN conjunct1]
  have 1: "failing_svd rect_A = Inl LinAlgError" by (simp add: failing_svd_def)
  have 2: "singular_svd singular_A = Inr singular_factors" by (simp add: singular_svd_def)
  have 3: "demo_svd demo_A = Inr demo_factors" by (simp add: demo_svd_def)
  have guards: "\<not> handles_failure tensor_cell_21" "\<not> handles_failure svd_cell_29"
    "\<not> handles_failure tuning_cell_1"
    using unguarded tuning_cells_listed svd_cell_29_listed by blast+
  have raised: "reconstruct_rect failing_svd rect_A = Inl LinAlgError"
    using raises[rule_format, of failing_svd rect_A LinAlgError, OF 1] by (rule conjunct1)
  have warned: "0 \<in> set (entries [[[1, 0]]])"
    by (rule divide[rule_format, OF zero_divisor_warns])
  have inf: "0 \<in> set (fst (snd singular_factors))"
    using warns[rule_format, of singular_svd singular_A singular_factors,
            OF conjI[OF 2 singular_pinv_via_svd]]
    by simp
  have fine: "\<exists>P. pinv_via_svd demo_svd demo_A = Inr (False, floats P)"
    by (rule full_rank[rule_format, of demo_svd demo_A demo_factors,
          OF conjI[OF 3 conjI[OF demo_contract conjI[OF demo_shape demo_full_column_rank]]]])
  show ?thesis
    by (intro conjI)
       (rule tuning_cells_listed svd_cell_29_listed guards 1 raised zero_divisor_warns warned 2
          singular_pinv_via_svd inf 3 demo_contract demo_shape demo_full_column_rank fine)+
qed

end
